theory Spec2Isabelle
  imports Complex_Main
begin

section \<open>Data model\<close>

text \<open>
  The tables of the migrations are lists of rows, one record per table, with the columns
  the inventory rule and the two screens read or write. Keys are the text of a uuid.
  Numbers are rationals, and a number of a screen is never NaN. A quantity written to
  \<^verbatim>\<open>inventory_items\<close> or \<^verbatim>\<open>inventory_movements\<close> is stored as its column,
  \<^verbatim>\<open>DECIMAL(10,2)\<close>, stores it: rounded to two decimals, and refused from \<open>10\<^sup>8\<close> on.
  Prices and totals are kept as the form sends them; its price field takes two decimals.
  \<^verbatim>\<open>transaction_items.quantity\<close> is an
  \<^verbatim>\<open>INTEGER\<close> column and the form reads it with \<^verbatim>\<open>parseInt\<close>, so it is an
  \<^typ>\<open>int\<close>. Generated columns (row ids of the item and movement tables, timestamps)
  and the row-level policies are left out.
\<close>

type_synonym uuid = string

datatype transaction_item_type = SERVICE | PRODUCT

datatype movement_type = IN | OUT

record service =
  svc_id :: uuid
  svc_name :: string
  svc_price :: rat

record transaction_row =
  tx_id :: uuid
  tx_barber_id :: uuid
  tx_total :: rat
  tx_payment_method_id :: uuid
  tx_notes :: "string option"
  tx_created_by :: uuid

record transaction_item =
  ti_transaction_id :: uuid
  ti_type :: transaction_item_type
  ti_service_id :: "uuid option"
  ti_inventory_item_id :: "uuid option"
  ti_price :: rat
  ti_quantity :: int
  ti_commission :: rat

record inventory_item =
  inv_id :: uuid
  inv_name :: string
  inv_sku :: "string option"
  inv_quantity :: rat
  inv_unit :: string
  inv_min_quantity :: "rat option"

record inventory_movement =
  mv_item_id :: uuid
  mv_type :: movement_type
  mv_quantity :: rat
  mv_notes :: "string option"
  mv_created_by :: uuid

record db =
  services :: "service list"
  transactions :: "transaction_row list"
  transaction_items :: "transaction_item list"
  inventory_items :: "inventory_item list"
  inventory_movements :: "inventory_movement list"

text \<open>
  A statement that the backend refuses leaves the tables as they were and returns the
  error. \<open>RequestFailed\<close> is a failure of the round trip itself, with the message the
  client library reports.
\<close>

datatype db_error =
  CheckViolation
  | ForeignKeyViolation
  | NotNullViolation
  | UniqueViolation
  | NumericValueOutOfRange
  | RequestFailed string

section \<open>Values of a \<^verbatim>\<open>DECIMAL(10,2)\<close> column\<close>

text \<open>
  A number assigned to a \<^verbatim>\<open>DECIMAL(10,2)\<close> column is rounded to two decimals, a
  half away from zero, and the statement is refused (\<^verbatim>\<open>numeric field overflow\<close>,
  22003) when the rounded value needs more than eight digits before the point.
\<close>

definition round_half_away :: "rat \<Rightarrow> int" where
  "round_half_away x = (if 0 \<le> x then \<lfloor>x + 1 / 2\<rfloor> else - \<lfloor>- x + 1 / 2\<rfloor>)"

definition round_2 :: "rat \<Rightarrow> rat" where
  "round_2 q = of_int (round_half_away (q * 100)) / 100"

definition fits_10_2 :: "rat \<Rightarrow> bool" where
  "fits_10_2 q \<longleftrightarrow> \<bar>round_2 q\<bar> < 100000000"

definition numeric_10_2 :: "rat \<Rightarrow> db_error + rat" where
  "numeric_10_2 q = (if fits_10_2 q then Inr (round_2 q) else Inl NumericValueOutOfRange)"

text \<open>The numbers that the column stores as they are: those of at most two decimals,
  and among them the values of the column, below \<open>10\<^sup>8\<close> in size.\<close>

definition two_decimals :: "rat \<Rightarrow> bool" where
  "two_decimals q \<longleftrightarrow> round_2 q = q"

definition decimal_10_2 :: "rat \<Rightarrow> bool" where
  "decimal_10_2 q \<longleftrightarrow> two_decimals q \<and> \<bar>q\<bar> < 100000000"

section \<open>The check constraint and the trigger\<close>

text \<open>
  \<^verbatim>\<open>CHECK ((type = 'SERVICE' AND service_id IS NOT NULL AND inventory_item_id IS NULL) OR
         (type = 'PRODUCT' AND inventory_item_id IS NOT NULL AND service_id IS NULL))\<close>.
  The column \<^verbatim>\<open>type\<close> is \<^verbatim>\<open>NOT NULL\<close>, so the condition is never unknown.
\<close>

definition check_item_type :: "transaction_item \<Rightarrow> bool" where
  "check_item_type new \<longleftrightarrow>
     (ti_type new = SERVICE \<and> ti_service_id new \<noteq> None \<and> ti_inventory_item_id new = None) \<or>
     (ti_type new = PRODUCT \<and> ti_inventory_item_id new \<noteq> None \<and> ti_service_id new = None)"

text \<open>
  The pairing as the data model words it: exactly one of the two references is present,
  and it is the one the kind tag names.
\<close>

definition exactly_one_reference :: "transaction_item \<Rightarrow> bool" where
  "exactly_one_reference new \<longleftrightarrow>
     (ti_service_id new \<noteq> None) \<noteq> (ti_inventory_item_id new \<noteq> None)"

definition kind_matches_reference :: "transaction_item \<Rightarrow> bool" where
  "kind_matches_reference new \<longleftrightarrow>
     (case ti_type new of
        SERVICE \<Rightarrow> ti_service_id new \<noteq> None \<and> ti_inventory_item_id new = None
      | PRODUCT \<Rightarrow> ti_inventory_item_id new \<noteq> None \<and> ti_service_id new = None)"

text \<open>
  \<^verbatim>\<open>'Venda autom\<close>\<open>\<dots>\<close>\<^verbatim>\<open>tica - Transaction ID: ' || NEW.transaction_id\<close>; the accented
  letter is its two bytes in UTF-8.
\<close>

definition sale_note :: "uuid \<Rightarrow> string" where
  "sale_note tid = ''Venda autom'' @ [CHR 0xC3, CHR 0xA1] @ ''tica - Transaction ID: '' @ tid"

text \<open>\<^verbatim>\<open>(SELECT created_by FROM transactions WHERE id = NEW.transaction_id)\<close>: null when
  no row has that id.\<close>

definition transaction_creator :: "db \<Rightarrow> uuid \<Rightarrow> uuid option" where
  "transaction_creator d tid =
     map_option tx_created_by (find (\<lambda>t. tx_id t = tid) (transactions d))"

text \<open>
  The trigger function, run after the insert of the row \<open>new\<close>. The \<^verbatim>\<open>UPDATE\<close> touches
  every row the \<^verbatim>\<open>WHERE\<close> selects and assigns each new quantity to its
  \<^verbatim>\<open>DECIMAL(10,2)\<close> column; the \<^verbatim>\<open>INSERT\<close> does the same with
  \<^verbatim>\<open>NEW.quantity\<close>. \<^verbatim>\<open>inventory_movements.created_by\<close> is \<^verbatim>\<open>NOT NULL\<close>, so a
  null creator fails the \<^verbatim>\<open>INSERT\<close>. Any error fails the statement that fired the
  trigger.
\<close>

definition update_inventory_on_product_sale :: "db \<Rightarrow> transaction_item \<Rightarrow> db_error + db" where
  "update_inventory_on_product_sale d new =
     (case ti_inventory_item_id new of
        Some iid \<Rightarrow>
          if ti_type new = PRODUCT then
            if list_all (\<lambda>r. fits_10_2 (inv_quantity r - of_int (ti_quantity new)))
                 (filter (\<lambda>r. inv_id r = iid) (inventory_items d))
            then
              let d1 = d\<lparr>inventory_items :=
                         map (\<lambda>r. if inv_id r = iid
                                   then r\<lparr>inv_quantity :=
                                            round_2 (inv_quantity r - of_int (ti_quantity new))\<rparr>
                                   else r)
                             (inventory_items d)\<rparr>
              in (case numeric_10_2 (of_int (ti_quantity new)) of
                    Inl e \<Rightarrow> Inl e
                  | Inr quantity \<Rightarrow>
                      (case transaction_creator d1 (ti_transaction_id new) of
                         None \<Rightarrow> Inl NotNullViolation
                       | Some creator \<Rightarrow>
                           Inr (d1\<lparr>inventory_movements := inventory_movements d1 @
                                 [\<lparr>mv_item_id = iid, mv_type = OUT,
                                   mv_quantity = quantity,
                                   mv_notes = Some (sale_note (ti_transaction_id new)),
                                   mv_created_by = creator\<rparr>]\<rparr>)))
            else Inl NumericValueOutOfRange
          else Inr d
      | None \<Rightarrow> Inr d)"

text \<open>
  The references of \<^verbatim>\<open>transaction_items\<close>: \<^verbatim>\<open>transaction_id\<close> to
  \<^verbatim>\<open>transactions(id)\<close>, \<^verbatim>\<open>service_id\<close> to \<^verbatim>\<open>services(id)\<close> and
  \<^verbatim>\<open>inventory_item_id\<close> to \<^verbatim>\<open>inventory_items(id)\<close>; a null reference is not checked.
\<close>

definition foreign_keys_ok :: "db \<Rightarrow> transaction_item \<Rightarrow> bool" where
  "foreign_keys_ok d new \<longleftrightarrow>
     list_ex (\<lambda>t. tx_id t = ti_transaction_id new) (transactions d) \<and>
     (case ti_service_id new of
        None \<Rightarrow> True
      | Some sid \<Rightarrow> list_ex (\<lambda>s. svc_id s = sid) (services d)) \<and>
     (case ti_inventory_item_id new of
        None \<Rightarrow> True
      | Some iid \<Rightarrow> list_ex (\<lambda>r. inv_id r = iid) (inventory_items d))"

text \<open>What runs for one inserted row once the rows are in the table: the reference
  checks and the trigger \<^verbatim>\<open>trigger_update_inventory_on_product_sale\<close>.\<close>

definition after_insert_row :: "db \<Rightarrow> transaction_item \<Rightarrow> db_error + db" where
  "after_insert_row d new =
     (if foreign_keys_ok d new then update_inventory_on_product_sale d new
      else Inl ForeignKeyViolation)"

fun after_insert_rows :: "db \<Rightarrow> transaction_item list \<Rightarrow> db_error + db" where
  "after_insert_rows d [] = Inr d"
| "after_insert_rows d (new # rest) =
     (case after_insert_row d new of
        Inl e \<Rightarrow> Inl e
      | Inr d' \<Rightarrow> after_insert_rows d' rest)"

text \<open>
  \<^verbatim>\<open>INSERT INTO transaction_items\<close> of some rows, as one statement: the check constraint
  is evaluated on every row, the rows are stored, and then the row triggers run, in the
  order of the rows. Any error rejects the whole statement.
\<close>

definition insert_transaction_items :: "db \<Rightarrow> transaction_item list \<Rightarrow> db_error + db" where
  "insert_transaction_items d rows =
     (if list_all check_item_type rows
      then after_insert_rows (d\<lparr>transaction_items := transaction_items d @ rows\<rparr>) rows
      else Inl CheckViolation)"

section \<open>The inventory screen\<close>

text \<open>
  The two statements \<^verbatim>\<open>handleMovement\<close> sends. Both quantity columns are
  \<^verbatim>\<open>DECIMAL(10,2)\<close>. \<^verbatim>\<open>inventory_movements.item_id\<close> references
  \<^verbatim>\<open>inventory_items(id)\<close>; the \<^verbatim>\<open>UPDATE\<close> sets the quantity of every row with
  the given id and is no error when there is none.
\<close>

definition insert_inventory_movement :: "inventory_movement \<Rightarrow> db \<Rightarrow> db_error + db" where
  "insert_inventory_movement m d =
     (case numeric_10_2 (mv_quantity m) of
        Inl e \<Rightarrow> Inl e
      | Inr quantity \<Rightarrow>
          if list_ex (\<lambda>r. inv_id r = mv_item_id m) (inventory_items d)
          then Inr (d\<lparr>inventory_movements :=
                      inventory_movements d @ [m\<lparr>mv_quantity := quantity\<rparr>]\<rparr>)
          else Inl ForeignKeyViolation)"

definition update_inventory_quantity :: "uuid \<Rightarrow> rat \<Rightarrow> db \<Rightarrow> db_error + db" where
  "update_inventory_quantity iid q d =
     (case numeric_10_2 q of
        Inl e \<Rightarrow> Inl e
      | Inr quantity \<Rightarrow>
          Inr (d\<lparr>inventory_items :=
                 map (\<lambda>r. if inv_id r = iid then r\<lparr>inv_quantity := quantity\<rparr> else r)
                     (inventory_items d)\<rparr>))"

text \<open>
  One awaited request of the client. \<open>failure\<close> is what the round trip does on its own
  account: \<open>Some e\<close> when it fails before the statement takes effect, \<open>None\<close> when the
  statement reaches the tables and its own outcome is the reply.
\<close>

definition request :: "db_error option \<Rightarrow> (db \<Rightarrow> db_error + db) \<Rightarrow> db \<Rightarrow> db_error + db" where
  "request failure stmt d = (case failure of Some e \<Rightarrow> Inl e | None \<Rightarrow> stmt d)"

text \<open>
  What the screen shows at the end of a handler. For an error of the backend the text is
  the backend's message, or the handler's fallback text when the message is empty; the
  model keeps the error itself.
\<close>

datatype toast = ToastError string | ToastBackendError db_error | ToastSuccess string

definition msg_preencha_campos :: string where
  "msg_preencha_campos = ''Preencha todos os campos''"

definition msg_quantidade_insuficiente :: string where
  "msg_quantidade_insuficiente = ''Quantidade insuficiente em estoque''"

definition msg_movimentacao_registrada :: string where
  "msg_movimentacao_registrada =
     ''Movimenta'' @ [CHR 0xC3, CHR 0xA7, CHR 0xC3, CHR 0xA3] @ ''o registrada com sucesso!''"

text \<open>The state \<^verbatim>\<open>movement\<close> of the dialog; the select offers the two directions.\<close>

record movement_form =
  mf_type :: movement_type
  mf_quantity :: rat
  mf_notes :: string

text \<open>
  \<^verbatim>\<open>handleMovement\<close>. \<open>selectedItem\<close> is the row the dialog was opened on, as the
  screen loaded it: it need not be the row the table has now. \<open>user\<close> is the id of the
  signed-in user. The handler returns the toast and the tables as the requests left
  them.
\<close>

definition handleMovement ::
  "uuid \<Rightarrow> inventory_item option \<Rightarrow> movement_form \<Rightarrow> db_error option \<Rightarrow> db_error option \<Rightarrow>
   db \<Rightarrow> toast \<times> db" where
  "handleMovement user selectedItem movement movementFailure updateFailure d =
     (case selectedItem of
        None \<Rightarrow> (ToastError msg_preencha_campos, d)
      | Some item \<Rightarrow>
          if mf_quantity movement \<le> 0 then (ToastError msg_preencha_campos, d)
          else
            let newQuantity =
                  (if mf_type movement = IN
                   then inv_quantity item + mf_quantity movement
                   else inv_quantity item - mf_quantity movement)
            in if newQuantity < 0 then (ToastError msg_quantidade_insuficiente, d)
               else
                 (case request movementFailure
                         (insert_inventory_movement
                            \<lparr>mv_item_id = inv_id item, mv_type = mf_type movement,
                             mv_quantity = mf_quantity movement,
                             mv_notes = Some (mf_notes movement),
                             mv_created_by = user\<rparr>) d of
                    Inl movementError \<Rightarrow> (ToastBackendError movementError, d)
                  | Inr d1 \<Rightarrow>
                      (case request updateFailure
                              (update_inventory_quantity (inv_id item) newQuantity) d1 of
                         Inl updateError \<Rightarrow> (ToastBackendError updateError, d1)
                       | Inr d2 \<Rightarrow> (ToastSuccess msg_movimentacao_registrada, d2))))"

text \<open>
  \<^verbatim>\<open>lowStockItems\<close> of the inventory screen:
  \<^verbatim>\<open>items.filter(item => item.min_quantity && item.quantity <= item.min_quantity)\<close>.
  The left operand is a \<^verbatim>\<open>number | null\<close> used as a condition: null and 0 are false.
\<close>

definition truthy :: "rat option \<Rightarrow> bool" where
  "truthy v = (case v of None \<Rightarrow> False | Some n \<Rightarrow> n \<noteq> 0)"

definition lowStockItems :: "inventory_item list \<Rightarrow> inventory_item list" where
  "lowStockItems items =
     filter (\<lambda>item. truthy (inv_min_quantity item) \<and>
                     inv_quantity item \<le> the (inv_min_quantity item)) items"

text \<open>
  \<^verbatim>\<open>loadLowStockItems\<close> of the dashboard:
  \<^verbatim>\<open>Number(item.quantity) <= Number(item.min_quantity)\<close>, the five smallest quantities
  first. \<^verbatim>\<open>Number(null)\<close> is 0.
\<close>

definition Number :: "rat option \<Rightarrow> rat" where
  "Number v = (case v of None \<Rightarrow> 0 | Some n \<Rightarrow> n)"

definition loadLowStockItems :: "inventory_item list \<Rightarrow> inventory_item list" where
  "loadLowStockItems allItems =
     take 5 (sort_key inv_quantity
       (filter (\<lambda>item. inv_quantity item \<le> Number (inv_min_quantity item)) allItems))"

text \<open>
  The quantity on hand of an item, and the signed sum of its movement rows: \<open>IN\<close> rows
  count positive, \<open>OUT\<close> rows negative.
\<close>

definition stock :: "db \<Rightarrow> uuid \<Rightarrow> rat option" where
  "stock d iid = map_option inv_quantity (find (\<lambda>r. inv_id r = iid) (inventory_items d))"

definition signed_quantity :: "inventory_movement \<Rightarrow> rat" where
  "signed_quantity m = (case mv_type m of IN \<Rightarrow> mv_quantity m | OUT \<Rightarrow> - mv_quantity m)"

definition movement_balance :: "db \<Rightarrow> uuid \<Rightarrow> rat" where
  "movement_balance d iid =
     sum_list (map signed_quantity (filter (\<lambda>m. mv_item_id m = iid) (inventory_movements d)))"

text \<open>
  A run of manual movements. Each request is one call of \<^verbatim>\<open>handleMovement\<close>: the row
  the dialog was opened on, the form, and what the two round trips do. The run is
  \<open>None\<close> as soon as a movement does not end in the success toast.
\<close>

record manual_request =
  rq_selectedItem :: inventory_item
  rq_movement :: movement_form
  rq_movementFailure :: "db_error option"
  rq_updateFailure :: "db_error option"

fun manual_movements :: "uuid \<Rightarrow> manual_request list \<Rightarrow> db \<Rightarrow> db option" where
  "manual_movements user [] d = Some d"
| "manual_movements user (rq # rest) d =
     (case handleMovement user (Some (rq_selectedItem rq)) (rq_movement rq)
             (rq_movementFailure rq) (rq_updateFailure rq) d of
        (ToastSuccess msg, d') \<Rightarrow> manual_movements user rest d'
      | (ToastError msg, d') \<Rightarrow> None
      | (ToastBackendError e, d') \<Rightarrow> None)"

text \<open>
  The run is on current rows when every dialog was opened on the row as the table has it
  at that moment: the screen had reloaded its list (\<^verbatim>\<open>loadItems\<close>) since the last
  write to the item.
\<close>

fun on_current_rows :: "uuid \<Rightarrow> manual_request list \<Rightarrow> db \<Rightarrow> bool" where
  "on_current_rows user [] d = True"
| "on_current_rows user (rq # rest) d \<longleftrightarrow>
     find (\<lambda>r. inv_id r = inv_id (rq_selectedItem rq)) (inventory_items d)
       = Some (rq_selectedItem rq) \<and>
     on_current_rows user rest
       (snd (handleMovement user (Some (rq_selectedItem rq)) (rq_movement rq)
               (rq_movementFailure rq) (rq_updateFailure rq) d))"

section \<open>The new-transaction screen\<close>

text \<open>A line of the form (\<^verbatim>\<open>interface TransactionItem\<close> of the screen).\<close>

record line_item =
  li_type :: transaction_item_type
  li_serviceId :: "uuid option"
  li_productId :: "uuid option"
  li_quantity :: int
  li_price :: rat
  li_commission :: rat

definition calculateTotal :: "line_item list \<Rightarrow> rat" where
  "calculateTotal items =
     foldl (\<lambda>sum item. sum + li_price item * of_int (li_quantity item)) 0 items"

definition calculateCommission :: "line_item list \<Rightarrow> rat" where
  "calculateCommission items =
     foldl (\<lambda>sum item. sum + li_commission item * of_int (li_quantity item)) 0 items"

definition msg_campos_obrigatorios :: string where
  "msg_campos_obrigatorios =
     ''Preencha todos os campos obrigat'' @ [CHR 0xC3, CHR 0xB3] @ ''rios''"

definition msg_transacao_registrada :: string where
  "msg_transacao_registrada =
     ''Transa'' @ [CHR 0xC3, CHR 0xA7, CHR 0xC3, CHR 0xA3] @ ''o registrada com sucesso!''"

text \<open>
  \<^verbatim>\<open>INSERT INTO transactions ... RETURNING *\<close>. The id is the column's default,
  \<^verbatim>\<open>gen_random_uuid()\<close>: \<open>new_id\<close> is the value it draws. The id is the primary key.
  The references to barbers, payment methods and profiles are tables outside the model.
\<close>

definition insert_transaction ::
  "uuid \<Rightarrow> transaction_row \<Rightarrow> db \<Rightarrow> db_error + db" where
  "insert_transaction new_id row d =
     (if list_ex (\<lambda>t. tx_id t = new_id) (transactions d)
      then Inl UniqueViolation
      else Inr (d\<lparr>transactions := transactions d @ [row\<lparr>tx_id := new_id\<rparr>]\<rparr>))"

text \<open>
  The rows \<^verbatim>\<open>itemsToInsert\<close> that \<^verbatim>\<open>handleSubmit\<close> builds from the lines of the
  form, for the header row the backend returned with the id \<open>transaction_id\<close>.
\<close>

definition itemsToInsert :: "uuid \<Rightarrow> line_item list \<Rightarrow> transaction_item list" where
  "itemsToInsert transaction_id items =
     map (\<lambda>item.
            \<lparr>ti_transaction_id = transaction_id,
             ti_type = li_type item,
             ti_service_id = (if li_type item = SERVICE then li_serviceId item else None),
             ti_inventory_item_id = (if li_type item = PRODUCT then li_productId item else None),
             ti_price = li_price item,
             ti_quantity = li_quantity item,
             ti_commission = li_commission item\<rparr>) items"

text \<open>
  \<^verbatim>\<open>handleSubmit\<close>: the guard, the insert of the header with the total of the lines,
  then one insert of all the lines. The id of the returned header is \<open>new_id\<close>.
\<close>

definition handleSubmit ::
  "uuid \<Rightarrow> string \<Rightarrow> string \<Rightarrow> line_item list \<Rightarrow> string \<Rightarrow> uuid \<Rightarrow>
   db_error option \<Rightarrow> db_error option \<Rightarrow> db \<Rightarrow> toast \<times> db" where
  "handleSubmit user selectedBarberId selectedPaymentMethodId items notes new_id
       transactionFailure itemsFailure d =
     (if selectedBarberId = [] \<or> selectedPaymentMethodId = [] \<or> length items = 0
      then (ToastError msg_campos_obrigatorios, d)
      else
        let total = calculateTotal items in
        (case request transactionFailure
                (insert_transaction new_id
                   \<lparr>tx_id = new_id, tx_barber_id = selectedBarberId, tx_total = total,
                    tx_payment_method_id = selectedPaymentMethodId,
                    tx_notes = Some notes, tx_created_by = user\<rparr>) d of
           Inl transactionError \<Rightarrow> (ToastBackendError transactionError, d)
         | Inr d1 \<Rightarrow>
             (case request itemsFailure
                     (\<lambda>d. insert_transaction_items d (itemsToInsert new_id items)) d1 of
                Inl itemsError \<Rightarrow> (ToastBackendError itemsError, d1)
              | Inr d2 \<Rightarrow> (ToastSuccess msg_transacao_registrada, d2))))"

section \<open>A small shop\<close>

text \<open>Tables with one service, one sale header and two stocked products, for the
  concrete runs below.\<close>

definition pomade :: inventory_item where
  "pomade = \<lparr>inv_id = ''i1'', inv_name = ''Pomada'', inv_sku = None, inv_quantity = 2,
             inv_unit = ''un'', inv_min_quantity = Some 1\<rparr>"

definition shampoo :: inventory_item where
  "shampoo = \<lparr>inv_id = ''i2'', inv_name = ''Shampoo'', inv_sku = Some ''SH-1'',
              inv_quantity = 0, inv_unit = ''un'', inv_min_quantity = Some 0\<rparr>"

definition shop :: db where
  "shop = \<lparr>services = [\<lparr>svc_id = ''s1'', svc_name = ''Corte'', svc_price = 40\<rparr>],
           transactions = [\<lparr>tx_id = ''t1'', tx_barber_id = ''b1'', tx_total = 75,
                            tx_payment_method_id = ''p1'', tx_notes = None,
                            tx_created_by = ''u1''\<rparr>],
           transaction_items = [],
           inventory_items = [pomade, shampoo],
           inventory_movements = []\<rparr>"

definition product_line :: "int \<Rightarrow> transaction_item" where
  "product_line q = \<lparr>ti_transaction_id = ''t1'', ti_type = PRODUCT, ti_service_id = None,
                     ti_inventory_item_id = Some ''i1'', ti_price = 15, ti_quantity = q,
                     ti_commission = 5\<rparr>"

definition service_line :: transaction_item where
  "service_line = \<lparr>ti_transaction_id = ''t1'', ti_type = SERVICE, ti_service_id = Some ''s1'',
                   ti_inventory_item_id = None, ti_price = 40, ti_quantity = 1,
                   ti_commission = 0\<rparr>"

text \<open>The lines of a form: one haircut and two units of the pomade.\<close>

definition form_lines :: "line_item list" where
  "form_lines =
     [\<lparr>li_type = SERVICE, li_serviceId = Some ''s1'', li_productId = None,
       li_quantity = 1, li_price = 40, li_commission = 0\<rparr>,
      \<lparr>li_type = PRODUCT, li_serviceId = None, li_productId = Some ''i1'',
       li_quantity = 2, li_price = 15, li_commission = 5\<rparr>]"

text \<open>The tables after the product line of quantity 5 is inserted into the shop.\<close>

definition oversold :: db where
  "oversold = shop\<lparr>transaction_items := [product_line 5],
                   inventory_items := [pomade\<lparr>inv_quantity := - 3\<rparr>, shampoo],
                   inventory_movements :=
                     [\<lparr>mv_item_id = ''i1'', mv_type = OUT, mv_quantity = 5,
                       mv_notes = Some (sale_note ''t1''), mv_created_by = ''u1''\<rparr>]\<rparr>"

text \<open>The tables after the form lines are submitted on top of that, as transaction
  \<open>t2\<close>.\<close>

definition sold :: db where
  "sold = oversold\<lparr>transactions := transactions oversold @
                       [\<lparr>tx_id = ''t2'', tx_barber_id = ''b1'', tx_total = 70,
                         tx_payment_method_id = ''p1'', tx_notes = Some ''nota'',
                         tx_created_by = ''u2''\<rparr>],
                   transaction_items := product_line 5 # itemsToInsert ''t2'' form_lines,
                   inventory_items := [pomade\<lparr>inv_quantity := - 5\<rparr>, shampoo],
                   inventory_movements := inventory_movements oversold @
                       [\<lparr>mv_item_id = ''i1'', mv_type = OUT, mv_quantity = 2,
                         mv_notes = Some (sale_note ''t2''), mv_created_by = ''u2''\<rparr>]\<rparr>"

section \<open>Rounding to the column\<close>

lemma round_half_away_of_int [simp]: "round_half_away (of_int k) = k"
  by (auto simp: round_half_away_def) linarith+

lemma two_decimals_iff: "two_decimals q \<longleftrightarrow> (\<exists>k::int. q = of_int k / 100)"
proof
  assume "two_decimals q"
  then have "q = of_int (round_half_away (q * 100)) / 100"
    by (simp add: two_decimals_def round_2_def)
  then show "\<exists>k::int. q = of_int k / 100" ..
next
  assume "\<exists>k::int. q = of_int k / 100"
  then obtain k :: int where "q = of_int k / 100" ..
  then show "two_decimals q"
    by (simp add: two_decimals_def round_2_def)
qed

lemma two_decimals_round_2 [simp]: "two_decimals (round_2 q)"
  by (auto simp: two_decimals_iff round_2_def)

lemma two_decimals_add: "two_decimals a \<Longrightarrow> two_decimals b \<Longrightarrow> two_decimals (a + b)"
  unfolding two_decimals_iff
proof -
  assume "\<exists>k::int. a = of_int k / 100" "\<exists>k::int. b = of_int k / 100"
  then obtain k l :: int where "a = of_int k / 100" "b = of_int l / 100" by blast
  then have "a + b = of_int (k + l) / 100" by (simp add: add_divide_distrib)
  then show "\<exists>k::int. a + b = of_int k / 100" ..
qed

lemma two_decimals_minus: "two_decimals a \<Longrightarrow> two_decimals (- a)"
  unfolding two_decimals_iff
proof -
  assume "\<exists>k::int. a = of_int k / 100"
  then obtain k :: int where "a = of_int k / 100" ..
  then have "- a = of_int (- k) / 100" by simp
  then show "\<exists>k::int. - a = of_int k / 100" ..
qed

lemma two_decimals_diff: "two_decimals a \<Longrightarrow> two_decimals b \<Longrightarrow> two_decimals (a - b)"
  using two_decimals_add [of a "- b"] two_decimals_minus [of b] by simp

lemma two_decimals_of_int [simp]: "two_decimals (of_int n)"
  unfolding two_decimals_iff
proof
  show "(of_int n :: rat) = of_int (n * 100) / 100" by simp
qed

lemma round_2_of_int: "round_2 (of_int k) = of_int k"
  using two_decimals_of_int [of k] by (simp add: two_decimals_def)

lemma round_2_numeral [simp]:
  "round_2 0 = 0" "round_2 1 = 1" "round_2 (numeral n) = numeral n"
  "round_2 (- 1) = - 1" "round_2 (- numeral n) = - numeral n"
  using round_2_of_int [of 0] round_2_of_int [of 1] round_2_of_int [of "numeral n"]
    round_2_of_int [of "- 1"] round_2_of_int [of "- numeral n"]
  by simp_all

lemma round_2_half_cent:
  "round_2 (1 / 200) = 1 / 100"
  "round_2 (399 / 200) = 2"
  "round_2 (401 / 200) = 201 / 100"
  by code_simp+

lemmas column_simps = numeric_10_2_def fits_10_2_def two_decimals_def decimal_10_2_def

lemma round_2_nonneg: "0 \<le> q \<Longrightarrow> 0 \<le> round_2 q"
  by (simp add: round_2_def round_half_away_def)

lemma round_2_sale:
  assumes "two_decimals q"
  shows "round_2 (q - of_int n) = q - of_int n"
proof -
  from two_decimals_diff [OF assms two_decimals_of_int]
  have "two_decimals (q - of_int n)" .
  then show ?thesis by (simp add: two_decimals_def)
qed

section \<open>The pairing of kind and reference\<close>

lemma check_item_type_iff:
  "check_item_type new \<longleftrightarrow> exactly_one_reference new \<and> kind_matches_reference new"
  by (cases "ti_type new")
     (auto simp: check_item_type_def exactly_one_reference_def kind_matches_reference_def)

lemma update_inventory_on_product_sale_Inr:
  assumes "update_inventory_on_product_sale d new = Inr d'"
  shows "(\<exists>iid creator.
            ti_type new = PRODUCT \<and> ti_inventory_item_id new = Some iid \<and>
            transaction_creator d (ti_transaction_id new) = Some creator \<and>
            d' = d\<lparr>inventory_items :=
                      map (\<lambda>r. if inv_id r = iid
                                then r\<lparr>inv_quantity :=
                                         round_2 (inv_quantity r - of_int (ti_quantity new))\<rparr>
                                else r)
                          (inventory_items d),
                    inventory_movements := inventory_movements d @
                      [\<lparr>mv_item_id = iid, mv_type = OUT,
                        mv_quantity = of_int (ti_quantity new),
                        mv_notes = Some (sale_note (ti_transaction_id new)),
                        mv_created_by = creator\<rparr>]\<rparr>) \<or>
         ((ti_type new = SERVICE \<or> ti_inventory_item_id new = None) \<and> d' = d)"
proof (cases "ti_type new = PRODUCT \<and> ti_inventory_item_id new \<noteq> None")
  case False
  with assms show ?thesis
    by (cases "ti_type new")
       (auto simp: update_inventory_on_product_sale_def split: option.splits)
next
  case True
  then obtain iid where ref: "ti_inventory_item_id new = Some iid" and kind: "ti_type new = PRODUCT"
    by auto
  from assms ref kind show ?thesis
    by (auto simp: update_inventory_on_product_sale_def transaction_creator_def Let_def
          numeric_10_2_def round_2_of_int
          split: if_splits option.splits)
qed

lemma after_insert_row_transaction_items:
  "after_insert_row d new = Inr d' \<Longrightarrow> transaction_items d' = transaction_items d"
  by (auto simp: after_insert_row_def split: if_splits
           dest!: update_inventory_on_product_sale_Inr)

lemma after_insert_rows_transaction_items:
  "after_insert_rows d rows = Inr d' \<Longrightarrow> transaction_items d' = transaction_items d"
proof (induction rows arbitrary: d)
  case Nil
  then show ?case by simp
next
  case (Cons new rest)
  then obtain d1 where step: "after_insert_row d new = Inr d1"
    and rest: "after_insert_rows d1 rest = Inr d'"
    by (auto split: sum.splits)
  from Cons.IH [OF rest] after_insert_row_transaction_items [OF step]
  show ?case by simp
qed

lemma insert_transaction_items_stored:
  assumes "insert_transaction_items d rows = Inr d'"
  shows "transaction_items d' = transaction_items d @ rows" and "list_all check_item_type rows"
  using assms after_insert_rows_transaction_items
  by (auto simp: insert_transaction_items_def split: if_splits)

text \<open>
  C2. Every stored transaction-item row has exactly one of the two references, the one its
  kind names: a SERVICE row has the service reference and no inventory reference, a
  PRODUCT row has the inventory reference and no service reference. An insert that is
  carried out keeps this true of the whole table, and an insert with a row that breaks
  the pairing is rejected with a constraint violation.
\<close>

theorem check_item_type_invariant:
  "(insert_transaction_items d rows = Inr d' \<longrightarrow>
      (\<forall>x \<in> set (transaction_items d). exactly_one_reference x \<and> kind_matches_reference x) \<longrightarrow>
      (\<forall>x \<in> set (transaction_items d'). exactly_one_reference x \<and> kind_matches_reference x \<and>
         (ti_type x = SERVICE \<longrightarrow> ti_service_id x \<noteq> None \<and> ti_inventory_item_id x = None) \<and>
         (ti_type x = PRODUCT \<longrightarrow> ti_inventory_item_id x \<noteq> None \<and> ti_service_id x = None))) \<and>
   ((\<exists>x \<in> set rows. \<not> (exactly_one_reference x \<and> kind_matches_reference x)) \<longrightarrow>
      insert_transaction_items d rows = Inl CheckViolation)"
proof (intro conjI impI)
  assume ok: "insert_transaction_items d rows = Inr d'"
    and old: "\<forall>x \<in> set (transaction_items d). exactly_one_reference x \<and> kind_matches_reference x"
  from insert_transaction_items_stored [OF ok]
  have stored: "transaction_items d' = transaction_items d @ rows"
    and new: "\<forall>x \<in> set rows. exactly_one_reference x \<and> kind_matches_reference x"
    by (simp_all add: list_all_iff check_item_type_iff)
  show "\<forall>x \<in> set (transaction_items d'). exactly_one_reference x \<and> kind_matches_reference x \<and>
         (ti_type x = SERVICE \<longrightarrow> ti_service_id x \<noteq> None \<and> ti_inventory_item_id x = None) \<and>
         (ti_type x = PRODUCT \<longrightarrow> ti_inventory_item_id x \<noteq> None \<and> ti_service_id x = None)"
  proof
    fix x assume "x \<in> set (transaction_items d')"
    with stored old new have "exactly_one_reference x \<and> kind_matches_reference x"
      by auto
    then show "exactly_one_reference x \<and> kind_matches_reference x \<and>
         (ti_type x = SERVICE \<longrightarrow> ti_service_id x \<noteq> None \<and> ti_inventory_item_id x = None) \<and>
         (ti_type x = PRODUCT \<longrightarrow> ti_inventory_item_id x \<noteq> None \<and> ti_service_id x = None)"
      by (auto simp: kind_matches_reference_def)
  qed
next
  assume "\<exists>x \<in> set rows. \<not> (exactly_one_reference x \<and> kind_matches_reference x)"
  then have "\<not> list_all check_item_type rows"
    by (auto simp: list_all_iff check_item_type_iff)
  then show "insert_transaction_items d rows = Inl CheckViolation"
    by (simp add: insert_transaction_items_def)
qed

theorem check_item_type_invariant_witness:
  "insert_transaction_items oversold [service_line]
     = Inr (oversold\<lparr>transaction_items := [product_line 5, service_line]\<rparr>) \<and>
   exactly_one_reference (product_line 5) \<and> kind_matches_reference (product_line 5) \<and>
   exactly_one_reference service_line \<and> kind_matches_reference service_line \<and>
   ti_service_id service_line \<noteq> None \<and> ti_inventory_item_id service_line = None \<and>
   \<not> exactly_one_reference (service_line\<lparr>ti_inventory_item_id := Some ''i1''\<rparr>) \<and>
   insert_transaction_items oversold [service_line\<lparr>ti_inventory_item_id := Some ''i1''\<rparr>]
     = Inl CheckViolation"
proof -
  let ?d' = "oversold\<lparr>transaction_items := [product_line 5, service_line]\<rparr>"
  let ?bad = "service_line\<lparr>ti_inventory_item_id := Some ''i1''\<rparr>"
  have run: "insert_transaction_items oversold [service_line] = Inr ?d'"
    by (simp add: insert_transaction_items_def check_item_type_def after_insert_row_def
          foreign_keys_ok_def update_inventory_on_product_sale_def column_simps Let_def oversold_def shop_def
          service_line_def)
  have old: "\<forall>x \<in> set (transaction_items oversold).
               exactly_one_reference x \<and> kind_matches_reference x"
    by (simp add: oversold_def product_line_def exactly_one_reference_def
          kind_matches_reference_def)
  have bad: "\<exists>x \<in> set [?bad]. \<not> (exactly_one_reference x \<and> kind_matches_reference x)"
    by (simp add: service_line_def exactly_one_reference_def)
  from check_item_type_invariant [of oversold "[service_line]" ?d'] run old
  have "\<forall>x \<in> set (transaction_items ?d'). exactly_one_reference x \<and> kind_matches_reference x \<and>
         (ti_type x = SERVICE \<longrightarrow> ti_service_id x \<noteq> None \<and> ti_inventory_item_id x = None) \<and>
         (ti_type x = PRODUCT \<longrightarrow> ti_inventory_item_id x \<noteq> None \<and> ti_service_id x = None)"
    by blast
  then have stored: "exactly_one_reference (product_line 5) \<and> kind_matches_reference (product_line 5) \<and>
     exactly_one_reference service_line \<and> kind_matches_reference service_line \<and>
     ti_service_id service_line \<noteq> None \<and> ti_inventory_item_id service_line = None"
    by (simp add: service_line_def)
  from check_item_type_invariant [of oversold "[?bad]" ?d'] bad
  have "insert_transaction_items oversold [?bad] = Inl CheckViolation"
    by blast
  with run stored show ?thesis
    by (simp add: service_line_def exactly_one_reference_def)
qed

section \<open>The product sale\<close>

lemma find_Some_list_ex: "find P xs = Some x \<Longrightarrow> list_ex P xs"
  by (induction xs) (auto split: if_splits)

lemma find_quantity_map:
  "map_option inv_quantity
     (find (\<lambda>r. inv_id r = j)
        (map (\<lambda>r. if inv_id r = iid then r\<lparr>inv_quantity := f r\<rparr> else r) xs))
   = (if j = iid then map_option f (find (\<lambda>r. inv_id r = iid) xs)
      else map_option inv_quantity (find (\<lambda>r. inv_id r = j) xs))"
  by (induction xs) auto

lemma sale_step_items:
  assumes table: "list_all (\<lambda>r. two_decimals (inv_quantity r)) xs"
  shows "map (\<lambda>r. if inv_id r = iid
                   then r\<lparr>inv_quantity := round_2 (inv_quantity r - of_int q)\<rparr> else r) xs
         = map (\<lambda>r. r\<lparr>inv_quantity :=
                        inv_quantity r - of_int (if inv_id r = iid then q else 0)\<rparr>) xs"
  using table by (induction xs) (simp_all add: round_2_sale)

lemma after_insert_row_sale:
  assumes step: "after_insert_row d new = Inr d'"
    and chk: "check_item_type new"
    and table: "list_all (\<lambda>r. two_decimals (inv_quantity r)) (inventory_items d)"
  shows "inventory_items d' =
           map (\<lambda>r. r\<lparr>inv_quantity := inv_quantity r -
                  of_int (if ti_type new = PRODUCT \<and> ti_inventory_item_id new = Some (inv_id r)
                          then ti_quantity new else 0)\<rparr>) (inventory_items d)"
    and "transactions d' = transactions d"
    and "ti_type new = SERVICE \<Longrightarrow> inventory_movements d' = inventory_movements d"
    and "ti_type new = PRODUCT \<Longrightarrow>
           \<exists>m. inventory_movements d' = inventory_movements d @ [m] \<and>
               ti_inventory_item_id new = Some (mv_item_id m) \<and> mv_type m = OUT \<and>
               mv_quantity m = of_int (ti_quantity new) \<and>
               mv_notes m = Some (sale_note (ti_transaction_id new)) \<and>
               map_option tx_created_by
                 (find (\<lambda>t. tx_id t = ti_transaction_id new) (transactions d))
                 = Some (mv_created_by m)"
proof -
  from step have trig: "update_inventory_on_product_sale d new = Inr d'"
    by (simp add: after_insert_row_def split: if_splits)
  note r = update_inventory_on_product_sale_Inr [OF trig]
  show "transactions d' = transactions d"
    using r by auto
  show "ti_type new = SERVICE \<Longrightarrow> inventory_movements d' = inventory_movements d"
    using r by auto
  show "ti_type new = PRODUCT \<Longrightarrow>
           \<exists>m. inventory_movements d' = inventory_movements d @ [m] \<and>
               ti_inventory_item_id new = Some (mv_item_id m) \<and> mv_type m = OUT \<and>
               mv_quantity m = of_int (ti_quantity new) \<and>
               mv_notes m = Some (sale_note (ti_transaction_id new)) \<and>
               map_option tx_created_by
                 (find (\<lambda>t. tx_id t = ti_transaction_id new) (transactions d))
                 = Some (mv_created_by m)"
    using r chk by (auto simp: check_item_type_def transaction_creator_def)
  show "inventory_items d' =
           map (\<lambda>r. r\<lparr>inv_quantity := inv_quantity r -
                  of_int (if ti_type new = PRODUCT \<and> ti_inventory_item_id new = Some (inv_id r)
                          then ti_quantity new else 0)\<rparr>) (inventory_items d)"
  proof (cases "ti_type new")
    case SERVICE
    with r chk show ?thesis
      by (auto simp: check_item_type_def map_idI)
  next
    case PRODUCT
    with r chk obtain iid where ref: "ti_inventory_item_id new = Some iid"
      and items: "inventory_items d' =
                    map (\<lambda>r. if inv_id r = iid
                              then r\<lparr>inv_quantity :=
                                       round_2 (inv_quantity r - of_int (ti_quantity new))\<rparr>
                              else r) (inventory_items d)"
      by (auto simp: check_item_type_def)
    from items sale_step_items [OF table, of iid "ti_quantity new"] PRODUCT ref
    show ?thesis
      by (simp add: eq_commute [of iid])
  qed
qed


lemma after_insert_row_two_decimals:
  assumes "after_insert_row d new = Inr d'"
    and "list_all (\<lambda>r. two_decimals (inv_quantity r)) (inventory_items d)"
  shows "list_all (\<lambda>r. two_decimals (inv_quantity r)) (inventory_items d')"
proof -
  from assms(1) have "update_inventory_on_product_sale d new = Inr d'"
    by (simp add: after_insert_row_def split: if_splits)
  from update_inventory_on_product_sale_Inr [OF this] assms(2) show ?thesis
    by (auto simp: list_all_iff)
qed

lemma after_insert_rows_items:
  assumes "after_insert_rows d rows = Inr d'"
    and "list_all check_item_type rows"
    and "list_all (\<lambda>r. two_decimals (inv_quantity r)) (inventory_items d)"
  shows "inventory_items d' =
           map (\<lambda>r. r\<lparr>inv_quantity := inv_quantity r -
                  of_int (\<Sum>x\<leftarrow>filter (\<lambda>x. ti_type x = PRODUCT \<and>
                                             ti_inventory_item_id x = Some (inv_id r)) rows.
                            ti_quantity x)\<rparr>) (inventory_items d)"
  using assms
proof (induction rows arbitrary: d)
  case Nil
  then show ?case by (simp add: map_idI)
next
  case (Cons new rest)
  from Cons.prems(1) obtain d1 where step: "after_insert_row d new = Inr d1"
    and rest: "after_insert_rows d1 rest = Inr d'"
    by (auto split: sum.splits)
  from Cons.prems(2) have chk: "check_item_type new" "list_all check_item_type rest"
    by simp_all
  note first = after_insert_row_sale(1) [OF step chk(1) Cons.prems(3)]
  note table1 = after_insert_row_two_decimals [OF step Cons.prems(3)]
  from Cons.IH [OF rest chk(2) table1] first show ?case
    by (simp add: comp_def)
qed

lemma after_insert_rows_movements:
  assumes "after_insert_rows d rows = Inr d'"
    and "list_all check_item_type rows"
    and "list_all (\<lambda>r. two_decimals (inv_quantity r)) (inventory_items d)"
    and "transactions d = ts"
  shows "\<exists>ms. inventory_movements d' = inventory_movements d @ ms \<and>
              list_all2 (\<lambda>m x. ti_inventory_item_id x = Some (mv_item_id m) \<and> mv_type m = OUT \<and>
                           mv_quantity m = of_int (ti_quantity x) \<and>
                           mv_notes m = Some (sale_note (ti_transaction_id x)) \<and>
                           map_option tx_created_by
                             (find (\<lambda>t. tx_id t = ti_transaction_id x) ts)
                             = Some (mv_created_by m))
                ms (filter (\<lambda>x. ti_type x = PRODUCT) rows)"
  using assms
proof (induction rows arbitrary: d)
  case Nil
  then show ?case by simp
next
  case (Cons new rest)
  from Cons.prems(1) obtain d1 where step: "after_insert_row d new = Inr d1"
    and rest: "after_insert_rows d1 rest = Inr d'"
    by (auto split: sum.splits)
  from Cons.prems(2) have chk: "check_item_type new" "list_all check_item_type rest"
    by simp_all
  note row = after_insert_row_sale [OF step chk(1) Cons.prems(3)]
  note table1 = after_insert_row_two_decimals [OF step Cons.prems(3)]
  from row(2) Cons.prems(4) have ts1: "transactions d1 = ts" by simp
  from Cons.IH [OF rest chk(2) table1 ts1]
  obtain ms where ms: "inventory_movements d' = inventory_movements d1 @ ms"
    "list_all2 (\<lambda>m x. ti_inventory_item_id x = Some (mv_item_id m) \<and> mv_type m = OUT \<and>
                           mv_quantity m = of_int (ti_quantity x) \<and>
                           mv_notes m = Some (sale_note (ti_transaction_id x)) \<and>
                           map_option tx_created_by
                             (find (\<lambda>t. tx_id t = ti_transaction_id x) ts)
                             = Some (mv_created_by m))
                ms (filter (\<lambda>x. ti_type x = PRODUCT) rest)"
    by blast
  show ?case
  proof (cases "ti_type new")
    case SERVICE
    with row(3) ms show ?thesis by auto
  next
    case PRODUCT
    with row(4) Cons.prems(4) obtain m
      where m: "inventory_movements d1 = inventory_movements d @ [m]"
        "ti_inventory_item_id new = Some (mv_item_id m)" "mv_type m = OUT"
        "mv_quantity m = of_int (ti_quantity new)"
        "mv_notes m = Some (sale_note (ti_transaction_id new))"
        "map_option tx_created_by
           (find (\<lambda>t. tx_id t = ti_transaction_id new) ts) = Some (mv_created_by m)"
      by auto
    from ms m PRODUCT show ?thesis
      by (intro exI [of _ "m # ms"]) simp
  qed
qed


lemma insert_transaction_items_rows:
  assumes "insert_transaction_items d rows = Inr d'"
  shows "list_all check_item_type rows"
    and "after_insert_rows (d\<lparr>transaction_items := transaction_items d @ rows\<rparr>) rows = Inr d'"
  using assms by (auto simp: insert_transaction_items_def split: if_splits)

text \<open>
  C1. Take an insert into \<open>transaction_items\<close> that is carried out, of one row or of
  several in one statement, on tables whose inventory quantities have two decimals, as
  their column stores them. Every inventory item keeps all its fields but the quantity,
  which goes down by the quantities of the PRODUCT rows that reference it: an item no
  such row references is not changed. Exactly one movement row is appended for each
  PRODUCT row, in their order: for the referenced item, direction \<open>OUT\<close>, the quantity
  of the row, the note \<^verbatim>\<open>Venda autom\<close>\<open>\<dots>\<close>\<^verbatim>\<open>tica - Transaction ID: \<close> followed by the
  transaction id, created by the creator of the parent transaction. For a single PRODUCT
  row of quantity \<open>Q\<close> on an item of quantity \<open>S\<close>: the quantity becomes \<open>S - Q\<close>, every
  other item keeps its quantity, and the one movement row is appended.
\<close>

theorem product_sale_updates_inventory:
  assumes carried: "insert_transaction_items d rows = Inr d'"
    and table: "list_all (\<lambda>r. two_decimals (inv_quantity r)) (inventory_items d)"
  shows "inventory_items d' =
           map (\<lambda>r. r\<lparr>inv_quantity := inv_quantity r -
                  of_int (\<Sum>x\<leftarrow>filter (\<lambda>x. ti_type x = PRODUCT \<and>
                                             ti_inventory_item_id x = Some (inv_id r)) rows.
                            ti_quantity x)\<rparr>) (inventory_items d) \<and>
         (\<exists>ms. inventory_movements d' = inventory_movements d @ ms \<and>
              list_all2 (\<lambda>m x. ti_inventory_item_id x = Some (mv_item_id m) \<and> mv_type m = OUT \<and>
                           mv_quantity m = of_int (ti_quantity x) \<and>
                           mv_notes m =
                             Some (''Venda autom'' @ [CHR 0xC3, CHR 0xA1] @
                                   ''tica - Transaction ID: '' @ ti_transaction_id x) \<and>
                           map_option tx_created_by
                             (find (\<lambda>t. tx_id t = ti_transaction_id x) (transactions d))
                             = Some (mv_created_by m))
                ms (filter (\<lambda>x. ti_type x = PRODUCT) rows)) \<and>
         (rows = [new] \<longrightarrow> ti_type new = PRODUCT \<longrightarrow> ti_inventory_item_id new = Some iid \<longrightarrow>
          stock d iid = Some S \<longrightarrow>
            stock d' iid = Some (S - of_int (ti_quantity new)) \<and>
            (\<forall>j. j \<noteq> iid \<longrightarrow> stock d' j = stock d j) \<and>
            (\<exists>t. find (\<lambda>t. tx_id t = ti_transaction_id new) (transactions d) = Some t \<and>
                 inventory_movements d' = inventory_movements d @
                   [\<lparr>mv_item_id = iid, mv_type = OUT, mv_quantity = of_int (ti_quantity new),
                     mv_notes =
                       Some (''Venda autom'' @ [CHR 0xC3, CHR 0xA1] @
                             ''tica - Transaction ID: '' @ ti_transaction_id new),
                     mv_created_by = tx_created_by t\<rparr>]))"
proof -
  let ?d0 = "d\<lparr>transaction_items := transaction_items d @ rows\<rparr>"
  note run = insert_transaction_items_rows [OF carried]
  from table have table0: "list_all (\<lambda>r. two_decimals (inv_quantity r)) (inventory_items ?d0)"
    by simp
  from after_insert_rows_items [OF run(2) run(1) table0]
  have items: "inventory_items d' =
           map (\<lambda>r. r\<lparr>inv_quantity := inv_quantity r -
                  of_int (\<Sum>x\<leftarrow>filter (\<lambda>x. ti_type x = PRODUCT \<and>
                                             ti_inventory_item_id x = Some (inv_id r)) rows.
                            ti_quantity x)\<rparr>) (inventory_items d)"
    by simp
  from after_insert_rows_movements [OF run(2) run(1) table0, of "transactions d"]
  have moves: "\<exists>ms. inventory_movements d' = inventory_movements d @ ms \<and>
              list_all2 (\<lambda>m x. ti_inventory_item_id x = Some (mv_item_id m) \<and> mv_type m = OUT \<and>
                           mv_quantity m = of_int (ti_quantity x) \<and>
                           mv_notes m =
                             Some (''Venda autom'' @ [CHR 0xC3, CHR 0xA1] @
                                   ''tica - Transaction ID: '' @ ti_transaction_id x) \<and>
                           map_option tx_created_by
                             (find (\<lambda>t. tx_id t = ti_transaction_id x) (transactions d))
                             = Some (mv_created_by m))
                ms (filter (\<lambda>x. ti_type x = PRODUCT) rows)"
    by (simp add: sale_note_def)
  have single: "stock d' iid = Some (S - of_int (ti_quantity new)) \<and>
            (\<forall>j. j \<noteq> iid \<longrightarrow> stock d' j = stock d j) \<and>
            (\<exists>t. find (\<lambda>t. tx_id t = ti_transaction_id new) (transactions d) = Some t \<and>
                 inventory_movements d' = inventory_movements d @
                   [\<lparr>mv_item_id = iid, mv_type = OUT, mv_quantity = of_int (ti_quantity new),
                     mv_notes =
                       Some (''Venda autom'' @ [CHR 0xC3, CHR 0xA1] @
                             ''tica - Transaction ID: '' @ ti_transaction_id new),
                     mv_created_by = tx_created_by t\<rparr>])"
    if one: "rows = [new]" and kind: "ti_type new = PRODUCT"
      and ref: "ti_inventory_item_id new = Some iid" and item: "stock d iid = Some S"
  proof -
    from run(2) one have "update_inventory_on_product_sale ?d0 new = Inr d'"
      by (auto simp: after_insert_row_def split: if_splits sum.splits)
    from update_inventory_on_product_sale_Inr [OF this] kind ref
    obtain creator where creator: "transaction_creator d (ti_transaction_id new) = Some creator"
      and d': "d' = ?d0\<lparr>inventory_items :=
                      map (\<lambda>r. if inv_id r = iid
                                then r\<lparr>inv_quantity :=
                                         round_2 (inv_quantity r - of_int (ti_quantity new))\<rparr>
                                else r)
                          (inventory_items d),
                    inventory_movements := inventory_movements d @
                      [\<lparr>mv_item_id = iid, mv_type = OUT,
                        mv_quantity = of_int (ti_quantity new),
                        mv_notes = Some (sale_note (ti_transaction_id new)),
                        mv_created_by = creator\<rparr>]\<rparr>"
      by (auto simp: transaction_creator_def)
    from item obtain r where r: "find (\<lambda>r. inv_id r = iid) (inventory_items d) = Some r"
      and S: "inv_quantity r = S"
      by (auto simp: stock_def)
    from r have "r \<in> set (inventory_items d)"
      by (auto simp: find_Some_iff)
    with table S have "two_decimals S"
      by (auto simp: list_all_iff)
    then have round: "round_2 (S - of_int (ti_quantity new)) = S - of_int (ti_quantity new)"
      by (rule round_2_sale)
    have st: "stock d' j = (if j = iid then Some (S - of_int (ti_quantity new)) else stock d j)"
      for j
      unfolding d' using r S round by (simp add: stock_def find_quantity_map)
    from creator obtain t
      where t: "find (\<lambda>t. tx_id t = ti_transaction_id new) (transactions d) = Some t"
        "tx_created_by t = creator"
      by (auto simp: transaction_creator_def)
    from st t d' show ?thesis
      by (simp add: sale_note_def)
  qed
  from items moves single show ?thesis by blast
qed


theorem product_sale_updates_inventory_witness:
  "insert_transaction_items shop [service_line, product_line 1, product_line 2]
     = Inr (shop\<lparr>transaction_items := [service_line, product_line 1, product_line 2],
                 inventory_items := [pomade\<lparr>inv_quantity := - 1\<rparr>, shampoo],
                 inventory_movements :=
                   [\<lparr>mv_item_id = ''i1'', mv_type = OUT, mv_quantity = 1,
                     mv_notes = Some (sale_note ''t1''), mv_created_by = ''u1''\<rparr>,
                    \<lparr>mv_item_id = ''i1'', mv_type = OUT, mv_quantity = 2,
                     mv_notes = Some (sale_note ''t1''), mv_created_by = ''u1''\<rparr>]\<rparr>) \<and>
   list_all (\<lambda>r. two_decimals (inv_quantity r)) (inventory_items shop) \<and>
   inv_quantity pomade - of_int (1 + 2) = - 1 \<and>
   insert_transaction_items shop [product_line 1]
     = Inr (shop\<lparr>transaction_items := [product_line 1],
                 inventory_items := [pomade\<lparr>inv_quantity := 1\<rparr>, shampoo],
                 inventory_movements :=
                   [\<lparr>mv_item_id = ''i1'', mv_type = OUT, mv_quantity = 1,
                     mv_notes = Some (sale_note ''t1''), mv_created_by = ''u1''\<rparr>]\<rparr>) \<and>
   ti_type (product_line 1) = PRODUCT \<and>
   ti_inventory_item_id (product_line 1) = Some ''i1'' \<and>
   stock shop ''i1'' = Some 2 \<and>
   stock (shop\<lparr>transaction_items := [product_line 1],
                 inventory_items := [pomade\<lparr>inv_quantity := 1\<rparr>, shampoo],
                 inventory_movements :=
                   [\<lparr>mv_item_id = ''i1'', mv_type = OUT, mv_quantity = 1,
                     mv_notes = Some (sale_note ''t1''), mv_created_by = ''u1''\<rparr>]\<rparr>) ''i1''
     = Some (2 - 1) \<and>
   sale_note ''t1'' = ''Venda autom'' @ [CHR 0xC3, CHR 0xA1] @ ''tica - Transaction ID: t1''"
proof -
  let ?rows = "[service_line, product_line 1, product_line 2]"
  let ?d3 = "shop\<lparr>transaction_items := ?rows,
                 inventory_items := [pomade\<lparr>inv_quantity := - 1\<rparr>, shampoo],
                 inventory_movements :=
                   [\<lparr>mv_item_id = ''i1'', mv_type = OUT, mv_quantity = 1,
                     mv_notes = Some (sale_note ''t1''), mv_created_by = ''u1''\<rparr>,
                    \<lparr>mv_item_id = ''i1'', mv_type = OUT, mv_quantity = 2,
                     mv_notes = Some (sale_note ''t1''), mv_created_by = ''u1''\<rparr>]\<rparr>"
  let ?d1 = "shop\<lparr>transaction_items := [product_line 1],
                 inventory_items := [pomade\<lparr>inv_quantity := 1\<rparr>, shampoo],
                 inventory_movements :=
                   [\<lparr>mv_item_id = ''i1'', mv_type = OUT, mv_quantity = 1,
                     mv_notes = Some (sale_note ''t1''), mv_created_by = ''u1''\<rparr>]\<rparr>"
  have run3: "insert_transaction_items shop ?rows = Inr ?d3"
    by (simp add: insert_transaction_items_def check_item_type_def after_insert_row_def
          foreign_keys_ok_def update_inventory_on_product_sale_def column_simps Let_def
          transaction_creator_def shop_def service_line_def product_line_def
          pomade_def shampoo_def)
  have run1: "insert_transaction_items shop [product_line 1] = Inr ?d1"
    by (simp add: insert_transaction_items_def check_item_type_def after_insert_row_def
          foreign_keys_ok_def update_inventory_on_product_sale_def column_simps Let_def
          transaction_creator_def shop_def product_line_def pomade_def shampoo_def)
  have table: "list_all (\<lambda>r. two_decimals (inv_quantity r)) (inventory_items shop)"
    by (simp add: shop_def pomade_def shampoo_def two_decimals_def)
  have h: "ti_type (product_line 1) = PRODUCT"
    "ti_inventory_item_id (product_line 1) = Some ''i1''"
    "stock shop ''i1'' = Some 2"
    by (simp_all add: product_line_def shop_def stock_def pomade_def)
  have q: "ti_quantity (product_line 1) = 1" "inv_quantity pomade = 2"
    by (simp_all add: product_line_def pomade_def)
  from product_sale_updates_inventory [OF run3 table]
  have "inventory_items ?d3 =
           map (\<lambda>r. r\<lparr>inv_quantity := inv_quantity r -
                  of_int (\<Sum>x\<leftarrow>filter (\<lambda>x. ti_type x = PRODUCT \<and>
                                             ti_inventory_item_id x = Some (inv_id r)) ?rows.
                            ti_quantity x)\<rparr>) (inventory_items shop)"
    by blast
  then have sum: "inv_quantity pomade - of_int (1 + 2) = - 1"
    by (simp add: shop_def service_line_def product_line_def pomade_def shampoo_def)
  from product_sale_updates_inventory [OF run1 table, of "product_line 1" "''i1''" 2] h
  have "stock ?d1 ''i1'' = Some (2 - of_int (ti_quantity (product_line 1)))"
    by blast
  with run3 run1 table h sum show ?thesis
    by (simp add: q sale_note_def)
qed


lemma update_inventory_on_product_sale_effect:
  assumes "update_inventory_on_product_sale d new = Inr d'" and "check_item_type new"
  shows "ti_type new = SERVICE \<Longrightarrow> d' = d"
    and "length (inventory_movements d') =
           length (inventory_movements d) + (if ti_type new = PRODUCT then 1 else 0)"
  using update_inventory_on_product_sale_Inr [OF assms(1)] assms(2)
  by (auto simp: check_item_type_def)

lemma after_insert_rows_effect:
  assumes "after_insert_rows d rows = Inr d'" and "list_all check_item_type rows"
  shows "(\<forall>x \<in> set rows. ti_type x = SERVICE) \<Longrightarrow> d' = d"
    and "length (inventory_movements d') =
           length (inventory_movements d) + length (filter (\<lambda>x. ti_type x = PRODUCT) rows)"
  using assms
proof (induction rows arbitrary: d)
  case Nil
  { case 1 then show ?case by simp }
  { case 2 then show ?case by simp }
next
  case (Cons new rest)
  { case 1
    then obtain d1 where step: "update_inventory_on_product_sale d new = Inr d1"
      and rest: "after_insert_rows d1 rest = Inr d'"
      by (auto simp: after_insert_row_def split: sum.splits if_splits)
    from 1 have chk: "check_item_type new" "list_all check_item_type rest" by simp_all
    from 1 update_inventory_on_product_sale_effect(1) [OF step chk(1)] have "d1 = d" by simp
    moreover from Cons.IH(1) [OF _ rest chk(2)] 1 have "d' = d1" by simp
    ultimately show ?case by simp }
  { case 2
    then obtain d1 where step: "update_inventory_on_product_sale d new = Inr d1"
      and rest: "after_insert_rows d1 rest = Inr d'"
      by (auto simp: after_insert_row_def split: sum.splits if_splits)
    from 2 have chk: "check_item_type new" "list_all check_item_type rest" by simp_all
    from update_inventory_on_product_sale_effect(2) [OF step chk(1)]
      Cons.IH(2) [OF rest chk(2)]
    show ?case by simp }
qed

text \<open>
  C6. An insert of SERVICE lines creates no movement row and leaves every inventory item
  as it was. An insert that is carried out creates exactly one movement row for each
  PRODUCT line among its rows, and none for the others.
\<close>

theorem service_insert_leaves_inventory:
  "(insert_transaction_items d rows = Inr d' \<longrightarrow>
      (\<forall>x \<in> set rows. ti_type x = SERVICE) \<longrightarrow>
      inventory_movements d' = inventory_movements d \<and>
      inventory_items d' = inventory_items d) \<and>
   (insert_transaction_items d rows = Inr d' \<longrightarrow>
      length (inventory_movements d') =
        length (inventory_movements d) + length (filter (\<lambda>x. ti_type x = PRODUCT) rows))"
proof -
  have unfold: "list_all check_item_type rows \<and>
      after_insert_rows (d\<lparr>transaction_items := transaction_items d @ rows\<rparr>) rows = Inr d'"
    if "insert_transaction_items d rows = Inr d'"
    using that by (auto simp: insert_transaction_items_def split: if_splits)
  have services: "inventory_movements d' = inventory_movements d \<and>
      inventory_items d' = inventory_items d"
    if ok: "insert_transaction_items d rows = Inr d'"
      and all: "\<forall>x \<in> set rows. ti_type x = SERVICE"
  proof -
    from unfold [OF ok] have chk: "list_all check_item_type rows"
      and run: "after_insert_rows (d\<lparr>transaction_items := transaction_items d @ rows\<rparr>) rows
                  = Inr d'"
      by simp_all
    from after_insert_rows_effect(1) [OF run chk all] show ?thesis by simp
  qed
  have count: "length (inventory_movements d') =
        length (inventory_movements d) + length (filter (\<lambda>x. ti_type x = PRODUCT) rows)"
    if ok: "insert_transaction_items d rows = Inr d'"
  proof -
    from unfold [OF ok] have chk: "list_all check_item_type rows"
      and run: "after_insert_rows (d\<lparr>transaction_items := transaction_items d @ rows\<rparr>) rows
                  = Inr d'"
      by simp_all
    from after_insert_rows_effect(2) [OF run chk] show ?thesis by simp
  qed
  from services count show ?thesis by blast
qed

theorem service_insert_leaves_inventory_witness:
  "insert_transaction_items shop [service_line, product_line 1, service_line]
     = Inr (shop\<lparr>transaction_items := [service_line, product_line 1, service_line],
                 inventory_items := [pomade\<lparr>inv_quantity := 1\<rparr>, shampoo],
                 inventory_movements :=
                   [\<lparr>mv_item_id = ''i1'', mv_type = OUT, mv_quantity = 1,
                     mv_notes = Some (sale_note ''t1''), mv_created_by = ''u1''\<rparr>]\<rparr>) \<and>
   insert_transaction_items shop [service_line]
     = Inr (shop\<lparr>transaction_items := [service_line]\<rparr>) \<and>
   ti_type service_line = SERVICE \<and>
   inventory_movements (shop\<lparr>transaction_items := [service_line]\<rparr>) = inventory_movements shop \<and>
   inventory_items (shop\<lparr>transaction_items := [service_line]\<rparr>) = inventory_items shop \<and>
   length (inventory_movements shop) = 0"
proof -
  let ?d1 = "shop\<lparr>transaction_items := [service_line]\<rparr>"
  let ?rows = "[service_line, product_line 1, service_line]"
  let ?d2 = "shop\<lparr>transaction_items := ?rows,
                 inventory_items := [pomade\<lparr>inv_quantity := 1\<rparr>, shampoo],
                 inventory_movements :=
                   [\<lparr>mv_item_id = ''i1'', mv_type = OUT, mv_quantity = 1,
                     mv_notes = Some (sale_note ''t1''), mv_created_by = ''u1''\<rparr>]\<rparr>"
  have run1: "insert_transaction_items shop [service_line] = Inr ?d1"
    by (simp add: insert_transaction_items_def check_item_type_def after_insert_row_def
          foreign_keys_ok_def update_inventory_on_product_sale_def column_simps Let_def shop_def service_line_def)
  have run2: "insert_transaction_items shop ?rows = Inr ?d2"
    by (simp add: insert_transaction_items_def check_item_type_def after_insert_row_def
          foreign_keys_ok_def update_inventory_on_product_sale_def column_simps Let_def transaction_creator_def
          shop_def service_line_def product_line_def pomade_def shampoo_def)
  have all: "\<forall>x \<in> set [service_line]. ti_type x = SERVICE"
    by (simp add: service_line_def)
  from service_insert_leaves_inventory [of shop "[service_line]" ?d1] run1 all
  have "inventory_movements ?d1 = inventory_movements shop \<and>
        inventory_items ?d1 = inventory_items shop"
    by blast
  moreover from service_insert_leaves_inventory [of shop ?rows ?d2] run2
  have "length (inventory_movements ?d2) =
        length (inventory_movements shop) + length (filter (\<lambda>x. ti_type x = PRODUCT) ?rows)"
    by blast
  ultimately show ?thesis using run1 run2 all
    by (simp add: shop_def)
qed

section \<open>Manual stock movements\<close>

lemma fits_two_decimals: "two_decimals q \<Longrightarrow> fits_10_2 q \<longleftrightarrow> \<bar>q\<bar> < 100000000"
  by (simp add: fits_10_2_def two_decimals_def)

lemma handleMovement_accepted:
  assumes pos: "0 < mf_quantity movement"
    and enough: "0 \<le> (if mf_type movement = IN
                        then inv_quantity item + mf_quantity movement
                        else inv_quantity item - mf_quantity movement)"
    and known: "list_ex (\<lambda>r. inv_id r = inv_id item) (inventory_items d)"
    and row_fits: "fits_10_2 (mf_quantity movement)"
    and new_fits: "fits_10_2 (if mf_type movement = IN
                              then inv_quantity item + mf_quantity movement
                              else inv_quantity item - mf_quantity movement)"
  shows "handleMovement user (Some item) movement None None d =
           (ToastSuccess msg_movimentacao_registrada,
            d\<lparr>inventory_movements := inventory_movements d @
                  [\<lparr>mv_item_id = inv_id item, mv_type = mf_type movement,
                    mv_quantity = round_2 (mf_quantity movement),
                    mv_notes = Some (mf_notes movement), mv_created_by = user\<rparr>],
              inventory_items :=
                map (\<lambda>r. if inv_id r = inv_id item
                          then r\<lparr>inv_quantity :=
                                   round_2 (if mf_type movement = IN
                                            then inv_quantity item + mf_quantity movement
                                            else inv_quantity item - mf_quantity movement)\<rparr>
                          else r) (inventory_items d)\<rparr>)"
  using assms
  by (simp add: handleMovement_def request_def insert_inventory_movement_def
        update_inventory_quantity_def numeric_10_2_def Let_def)

lemma handleMovement_success:
  assumes "handleMovement user (Some item) movement movementFailure updateFailure d
             = (ToastSuccess msg, d')"
  shows "0 < mf_quantity movement"
    and "0 \<le> (if mf_type movement = IN
                then inv_quantity item + mf_quantity movement
                else inv_quantity item - mf_quantity movement)"
    and "d' = d\<lparr>inventory_movements := inventory_movements d @
                  [\<lparr>mv_item_id = inv_id item, mv_type = mf_type movement,
                    mv_quantity = round_2 (mf_quantity movement),
                    mv_notes = Some (mf_notes movement), mv_created_by = user\<rparr>],
              inventory_items :=
                map (\<lambda>r. if inv_id r = inv_id item
                          then r\<lparr>inv_quantity :=
                                   round_2 (if mf_type movement = IN
                                            then inv_quantity item + mf_quantity movement
                                            else inv_quantity item - mf_quantity movement)\<rparr>
                          else r) (inventory_items d)\<rparr>"
  using assms
  by (auto simp: handleMovement_def request_def insert_inventory_movement_def
        update_inventory_quantity_def numeric_10_2_def Let_def
        split: if_splits option.splits sum.splits)

lemma handleMovement_nonnegative:
  assumes "\<forall>r \<in> set (inventory_items d). 0 \<le> inv_quantity r"
  shows "\<forall>r \<in> set (inventory_items
            (snd (handleMovement user selectedItem movement movementFailure updateFailure d))).
           0 \<le> inv_quantity r"
  using assms
  by (auto simp: handleMovement_def request_def insert_inventory_movement_def
        update_inventory_quantity_def numeric_10_2_def Let_def round_2_nonneg
        split: if_splits option.splits sum.splits)

text \<open>
  C3, as the handler and the columns have it. A manual \<open>OUT\<close> movement of a quantity
  \<open>Q > 0\<close> of at most two decimals, made on the row as the table has it, a value \<open>S\<close> of
  the quantity column: when \<open>Q > S\<close> it is refused for insufficient stock and nothing is
  written, whatever the backend would have answered; when \<open>Q \<le> S\<close> and neither request
  fails, the quantity of the item becomes \<open>S - Q\<close>, the other items keep theirs and
  exactly one movement row, of quantity \<open>Q\<close>, is appended. No manual movement of any
  kind makes a quantity negative: if no item is below zero before, none is after.
\<close>

theorem manual_out_movement:
  assumes out: "mf_type movement = OUT"
    and pos: "0 < mf_quantity movement"
    and cents: "two_decimals (mf_quantity movement)"
    and cur: "find (\<lambda>r. inv_id r = inv_id item) (inventory_items d) = Some item"
    and col: "decimal_10_2 (inv_quantity item)"
  shows "(inv_quantity item < mf_quantity movement \<longrightarrow>
            handleMovement user (Some item) movement movementFailure updateFailure d
              = (ToastError msg_quantidade_insuficiente, d)) \<and>
         (mf_quantity movement \<le> inv_quantity item \<longrightarrow>
            (\<exists>d'. handleMovement user (Some item) movement None None d
                    = (ToastSuccess msg_movimentacao_registrada, d') \<and>
                  stock d' (inv_id item) = Some (inv_quantity item - mf_quantity movement) \<and>
                  (\<forall>j. j \<noteq> inv_id item \<longrightarrow> stock d' j = stock d j) \<and>
                  inventory_movements d' = inventory_movements d @
                    [\<lparr>mv_item_id = inv_id item, mv_type = OUT,
                      mv_quantity = mf_quantity movement,
                      mv_notes = Some (mf_notes movement), mv_created_by = user\<rparr>])) \<and>
         ((\<forall>r \<in> set (inventory_items d). 0 \<le> inv_quantity r) \<longrightarrow>
            (\<forall>r \<in> set (inventory_items
                (snd (handleMovement user selectedItem anyMovement movementFailure updateFailure d))).
               0 \<le> inv_quantity r))"
proof -
  have refused: "handleMovement user (Some item) movement movementFailure updateFailure d
          = (ToastError msg_quantidade_insuficiente, d)"
    if "inv_quantity item < mf_quantity movement"
    using that out pos by (simp add: handleMovement_def)
  have accepted: "\<exists>d'. handleMovement user (Some item) movement None None d
                    = (ToastSuccess msg_movimentacao_registrada, d') \<and>
                  stock d' (inv_id item) = Some (inv_quantity item - mf_quantity movement) \<and>
                  (\<forall>j. j \<noteq> inv_id item \<longrightarrow> stock d' j = stock d j) \<and>
                  inventory_movements d' = inventory_movements d @
                    [\<lparr>mv_item_id = inv_id item, mv_type = OUT,
                      mv_quantity = mf_quantity movement,
                      mv_notes = Some (mf_notes movement), mv_created_by = user\<rparr>]"
    if le: "mf_quantity movement \<le> inv_quantity item"
  proof -
    let ?new = "if mf_type movement = IN
                then inv_quantity item + mf_quantity movement
                else inv_quantity item - mf_quantity movement"
    let ?d' = "d\<lparr>inventory_movements := inventory_movements d @
                  [\<lparr>mv_item_id = inv_id item, mv_type = mf_type movement,
                    mv_quantity = round_2 (mf_quantity movement),
                    mv_notes = Some (mf_notes movement), mv_created_by = user\<rparr>],
              inventory_items :=
                map (\<lambda>r. if inv_id r = inv_id item then r\<lparr>inv_quantity := round_2 ?new\<rparr>
                          else r) (inventory_items d)\<rparr>"
    from col have S: "two_decimals (inv_quantity item)" "\<bar>inv_quantity item\<bar> < 100000000"
      by (simp_all add: decimal_10_2_def)
    from out have new: "?new = inv_quantity item - mf_quantity movement" by simp
    from out le have enough: "0 \<le> ?new" by simp
    from two_decimals_diff [OF S(1) cents] new have new_cents: "two_decimals ?new" by simp
    from pos le S(2) have "\<bar>mf_quantity movement\<bar> < 100000000" "\<bar>?new\<bar> < 100000000"
      using out by auto
    with cents new_cents have fits: "fits_10_2 (mf_quantity movement)" "fits_10_2 ?new"
      by (simp_all add: fits_two_decimals)
    from cents new_cents new
    have stored: "round_2 (mf_quantity movement) = mf_quantity movement"
      "round_2 ?new = inv_quantity item - mf_quantity movement"
      by (simp_all add: two_decimals_def)
    have run: "handleMovement user (Some item) movement None None d
                 = (ToastSuccess msg_movimentacao_registrada, ?d')"
      by (rule handleMovement_accepted [OF pos enough find_Some_list_ex [OF cur] fits])
    have st: "stock ?d' j = (if j = inv_id item
                             then Some (inv_quantity item - mf_quantity movement)
                             else stock d j)" for j
      using cur stored(2) by (simp add: stock_def find_quantity_map)
    show ?thesis
      using run st out stored(1) by (intro exI [of _ ?d']) simp
  qed
  have kept: "\<forall>r \<in> set (inventory_items
                (snd (handleMovement user selectedItem anyMovement movementFailure updateFailure d))).
               0 \<le> inv_quantity r"
    if "\<forall>r \<in> set (inventory_items d). 0 \<le> inv_quantity r"
    using that by (rule handleMovement_nonnegative)
  from refused accepted kept show ?thesis by blast
qed


theorem manual_out_movement_witness:
  "mf_type \<lparr>mf_type = OUT, mf_quantity = 5, mf_notes = []\<rparr> = OUT \<and>
   (0::rat) < 5 \<and> (0::rat) < 2 \<and> two_decimals 5 \<and> two_decimals 2 \<and>
   stock shop ''i1'' = Some (inv_quantity pomade) \<and>
   decimal_10_2 (inv_quantity pomade) \<and>
   inv_quantity pomade < 5 \<and> 2 \<le> inv_quantity pomade \<and>
   handleMovement ''u1'' (Some pomade) \<lparr>mf_type = OUT, mf_quantity = 5, mf_notes = []\<rparr>
       (Some (RequestFailed ''offline'')) None shop
     = (ToastError msg_quantidade_insuficiente, shop) \<and>
   handleMovement ''u1'' (Some pomade) \<lparr>mf_type = OUT, mf_quantity = 2, mf_notes = []\<rparr>
       None None shop
     = (ToastSuccess msg_movimentacao_registrada,
        shop\<lparr>inventory_items := [pomade\<lparr>inv_quantity := 0\<rparr>, shampoo],
              inventory_movements :=
                [\<lparr>mv_item_id = ''i1'', mv_type = OUT, mv_quantity = 2,
                  mv_notes = Some [], mv_created_by = ''u1''\<rparr>]\<rparr>) \<and>
   stock (shop\<lparr>inventory_items := [pomade\<lparr>inv_quantity := 0\<rparr>, shampoo],
              inventory_movements :=
                [\<lparr>mv_item_id = ''i1'', mv_type = OUT, mv_quantity = 2,
                  mv_notes = Some [], mv_created_by = ''u1''\<rparr>]\<rparr>) ''i1'' = Some (2 - 2) \<and>
   list_all (\<lambda>r. 0 \<le> inv_quantity r) (inventory_items shop) \<and>
   list_all (\<lambda>r. 0 \<le> inv_quantity r)
     (inventory_items (snd (handleMovement ''u1'' (Some shampoo)
        \<lparr>mf_type = IN, mf_quantity = 3, mf_notes = []\<rparr> None None shop)))"
proof -
  let ?big = "\<lparr>mf_type = OUT, mf_quantity = 5, mf_notes = []\<rparr>"
  let ?small = "\<lparr>mf_type = OUT, mf_quantity = 2, mf_notes = []\<rparr>"
  let ?d' = "shop\<lparr>inventory_items := [pomade\<lparr>inv_quantity := 0\<rparr>, shampoo],
              inventory_movements :=
                [\<lparr>mv_item_id = ''i1'', mv_type = OUT, mv_quantity = 2,
                  mv_notes = Some [], mv_created_by = ''u1''\<rparr>]\<rparr>"
  have cur: "find (\<lambda>r. inv_id r = inv_id pomade) (inventory_items shop) = Some pomade"
    by (simp add: shop_def pomade_def)
  have q: "inv_quantity pomade = 2" "inv_id pomade = ''i1''"
    by (simp_all add: pomade_def)
  have col: "decimal_10_2 (inv_quantity pomade)"
    by (simp add: q column_simps)
  have st: "stock shop ''i1'' = Some (inv_quantity pomade)"
    by (simp add: shop_def stock_def pomade_def)
  have nonneg: "\<forall>r \<in> set (inventory_items shop). 0 \<le> inv_quantity r"
    by (simp add: shop_def pomade_def shampoo_def)
  have big: "mf_type ?big = OUT" "0 < mf_quantity ?big" "two_decimals (mf_quantity ?big)"
    "inv_quantity pomade < mf_quantity ?big"
    by (simp_all add: q column_simps)
  have small: "mf_type ?small = OUT" "0 < mf_quantity ?small" "two_decimals (mf_quantity ?small)"
    "mf_quantity ?small \<le> inv_quantity pomade"
    by (simp_all add: q column_simps)
  have run: "handleMovement ''u1'' (Some pomade) ?small None None shop
               = (ToastSuccess msg_movimentacao_registrada, ?d')"
    by (simp add: handleMovement_def request_def insert_inventory_movement_def
          update_inventory_quantity_def column_simps shop_def pomade_def shampoo_def)
  from manual_out_movement [OF big(1,2,3) cur col, of "''u1''"
      "Some (RequestFailed ''offline'')" None] big(4)
  have refused: "handleMovement ''u1'' (Some pomade) ?big (Some (RequestFailed ''offline'')) None shop
     = (ToastError msg_quantidade_insuficiente, shop)"
    by blast
  from manual_out_movement [OF small(1,2,3) cur col, of "''u1''" None None "Some shampoo"
      "\<lparr>mf_type = IN, mf_quantity = 3, mf_notes = []\<rparr>"] small(4) nonneg
  have accepted: "\<exists>d'. handleMovement ''u1'' (Some pomade) ?small None None shop
                    = (ToastSuccess msg_movimentacao_registrada, d') \<and>
                  stock d' (inv_id pomade) = Some (inv_quantity pomade - mf_quantity ?small) \<and>
                  (\<forall>j. j \<noteq> inv_id pomade \<longrightarrow> stock d' j = stock shop j) \<and>
                  inventory_movements d' = inventory_movements shop @
                    [\<lparr>mv_item_id = inv_id pomade, mv_type = OUT,
                      mv_quantity = mf_quantity ?small,
                      mv_notes = Some (mf_notes ?small), mv_created_by = ''u1''\<rparr>]"
    and kept: "\<forall>r \<in> set (inventory_items (snd (handleMovement ''u1'' (Some shampoo)
        \<lparr>mf_type = IN, mf_quantity = 3, mf_notes = []\<rparr> None None shop))). 0 \<le> inv_quantity r"
    by blast+
  from accepted run have "stock ?d' ''i1'' = Some (2 - 2)"
    by (auto simp: q)
  with refused run st col nonneg kept show ?thesis
    by (simp add: q list_all_iff column_simps)
qed

text \<open>
  Three requests where C3, without these bounds, fails. A movement of half a cent, which
  the quantity field lets through: \<open>Q \<le> S\<close> and the request succeeds, but the quantity
  column rounds \<open>1.995\<close> back to 2 and the movement row holds \<open>0.01\<close>. A dialog opened on a
  row loaded before the sale that left the table at \<open>- 3\<close>: the loaded quantity is 2, so an
  \<open>OUT\<close> of 2 is accepted although it exceeds the current quantity, and the table goes
  to 0. A request whose update fails: \<open>Q \<le> S\<close>, the movement row is written and the
  quantity stays 2.
\<close>

theorem manual_out_movement_counterexample:
  "stock shop ''i1'' = Some 2 \<and> (1 / 200 :: rat) \<le> 2 \<and>
   handleMovement ''u1'' (Some pomade) \<lparr>mf_type = OUT, mf_quantity = 1 / 200, mf_notes = []\<rparr>
       None None shop
     = (ToastSuccess msg_movimentacao_registrada,
        shop\<lparr>inventory_movements :=
                [\<lparr>mv_item_id = ''i1'', mv_type = OUT, mv_quantity = 1 / 100,
                  mv_notes = Some [], mv_created_by = ''u1''\<rparr>]\<rparr>) \<and>
   stock (shop\<lparr>inventory_movements :=
                [\<lparr>mv_item_id = ''i1'', mv_type = OUT, mv_quantity = 1 / 100,
                  mv_notes = Some [], mv_created_by = ''u1''\<rparr>]\<rparr>) ''i1'' = Some 2 \<and>
   (2 :: rat) \<noteq> 2 - 1 / 200 \<and>
   stock oversold ''i1'' = Some (- 3) \<and> (- 3 :: rat) < 2 \<and>
   handleMovement ''u1'' (Some pomade) \<lparr>mf_type = OUT, mf_quantity = 2, mf_notes = []\<rparr>
       None None oversold
     = (ToastSuccess msg_movimentacao_registrada,
        oversold\<lparr>inventory_items := [pomade\<lparr>inv_quantity := 0\<rparr>, shampoo],
                  inventory_movements := inventory_movements oversold @
                    [\<lparr>mv_item_id = ''i1'', mv_type = OUT, mv_quantity = 2,
                      mv_notes = Some [], mv_created_by = ''u1''\<rparr>]\<rparr>) \<and>
   handleMovement ''u1'' (Some pomade) \<lparr>mf_type = OUT, mf_quantity = 1, mf_notes = []\<rparr>
       None (Some (RequestFailed ''offline'')) shop
     = (ToastBackendError (RequestFailed ''offline''),
        shop\<lparr>inventory_movements :=
                [\<lparr>mv_item_id = ''i1'', mv_type = OUT, mv_quantity = 1,
                  mv_notes = Some [], mv_created_by = ''u1''\<rparr>]\<rparr>) \<and>
   stock (shop\<lparr>inventory_movements :=
                [\<lparr>mv_item_id = ''i1'', mv_type = OUT, mv_quantity = 1,
                  mv_notes = Some [], mv_created_by = ''u1''\<rparr>]\<rparr>) ''i1'' = Some 2"
  by (simp add: handleMovement_def request_def insert_inventory_movement_def
        update_inventory_quantity_def column_simps round_2_half_cent
        oversold_def shop_def pomade_def shampoo_def stock_def)


text \<open>
  C5, as the handler and the columns have it. A manual \<open>IN\<close> movement of a quantity
  \<open>Q > 0\<close> of at most two decimals, made on the row as the table has it, of quantity \<open>S\<close>
  with two decimals, where \<open>S + Q\<close> is not below zero and \<open>Q\<close> and \<open>S + Q\<close> are below
  \<open>10\<^sup>8\<close>: when neither request fails, the quantity of the item becomes \<open>S + Q\<close>, the
  other items keep theirs and exactly one movement row, of quantity \<open>Q\<close>, is appended.
  The handler has no upper bound of its own; \<open>10\<^sup>8\<close> is where the columns stop.
\<close>

theorem manual_in_movement:
  assumes inn: "mf_type movement = IN"
    and pos: "0 < mf_quantity movement"
    and cents: "two_decimals (mf_quantity movement)"
    and cur: "find (\<lambda>r. inv_id r = inv_id item) (inventory_items d) = Some item"
    and col: "two_decimals (inv_quantity item)"
    and enough: "0 \<le> inv_quantity item + mf_quantity movement"
    and row_range: "mf_quantity movement < 100000000"
    and new_range: "inv_quantity item + mf_quantity movement < 100000000"
  shows "\<exists>d'. handleMovement user (Some item) movement None None d
                = (ToastSuccess msg_movimentacao_registrada, d') \<and>
              stock d' (inv_id item) = Some (inv_quantity item + mf_quantity movement) \<and>
              (\<forall>j. j \<noteq> inv_id item \<longrightarrow> stock d' j = stock d j) \<and>
              inventory_movements d' = inventory_movements d @
                [\<lparr>mv_item_id = inv_id item, mv_type = IN,
                  mv_quantity = mf_quantity movement,
                  mv_notes = Some (mf_notes movement), mv_created_by = user\<rparr>]"
proof -
  let ?new = "if mf_type movement = IN
              then inv_quantity item + mf_quantity movement
              else inv_quantity item - mf_quantity movement"
  let ?d' = "d\<lparr>inventory_movements := inventory_movements d @
                  [\<lparr>mv_item_id = inv_id item, mv_type = mf_type movement,
                    mv_quantity = round_2 (mf_quantity movement),
                    mv_notes = Some (mf_notes movement), mv_created_by = user\<rparr>],
              inventory_items :=
                map (\<lambda>r. if inv_id r = inv_id item then r\<lparr>inv_quantity := round_2 ?new\<rparr>
                          else r) (inventory_items d)\<rparr>"
  from inn have new: "?new = inv_quantity item + mf_quantity movement" by simp
  from inn enough have ok: "0 \<le> ?new" by simp
  from two_decimals_add [OF col cents] new have new_cents: "two_decimals ?new" by simp
  from pos row_range enough new_range inn
  have "\<bar>mf_quantity movement\<bar> < 100000000" "\<bar>?new\<bar> < 100000000"
    by auto
  with cents new_cents have fits: "fits_10_2 (mf_quantity movement)" "fits_10_2 ?new"
    by (simp_all add: fits_two_decimals)
  from cents new_cents new
  have stored: "round_2 (mf_quantity movement) = mf_quantity movement"
    "round_2 ?new = inv_quantity item + mf_quantity movement"
    by (simp_all add: two_decimals_def)
  have run: "handleMovement user (Some item) movement None None d
               = (ToastSuccess msg_movimentacao_registrada, ?d')"
    by (rule handleMovement_accepted [OF pos ok find_Some_list_ex [OF cur] fits])
  have st: "stock ?d' j = (if j = inv_id item
                           then Some (inv_quantity item + mf_quantity movement)
                           else stock d j)" for j
    using cur stored(2) by (simp add: stock_def find_quantity_map)
  show ?thesis
    using run st inn stored(1) by (intro exI [of _ ?d']) simp
qed

theorem manual_in_movement_witness:
  "mf_type \<lparr>mf_type = IN, mf_quantity = 1000000, mf_notes = ''compra''\<rparr> = IN \<and>
   (0::rat) < 1000000 \<and> two_decimals 1000000 \<and>
   stock shop ''i1'' = Some (inv_quantity pomade) \<and>
   two_decimals (inv_quantity pomade) \<and>
   0 \<le> inv_quantity pomade + 1000000 \<and>
   (1000000 :: rat) < 100000000 \<and> inv_quantity pomade + 1000000 < 100000000 \<and>
   handleMovement ''u1'' (Some pomade)
       \<lparr>mf_type = IN, mf_quantity = 1000000, mf_notes = ''compra''\<rparr> None None shop
     = (ToastSuccess msg_movimentacao_registrada,
        shop\<lparr>inventory_items := [pomade\<lparr>inv_quantity := 1000002\<rparr>, shampoo],
              inventory_movements :=
                [\<lparr>mv_item_id = ''i1'', mv_type = IN, mv_quantity = 1000000,
                  mv_notes = Some ''compra'', mv_created_by = ''u1''\<rparr>]\<rparr>) \<and>
   stock (shop\<lparr>inventory_items := [pomade\<lparr>inv_quantity := 1000002\<rparr>, shampoo],
              inventory_movements :=
                [\<lparr>mv_item_id = ''i1'', mv_type = IN, mv_quantity = 1000000,
                  mv_notes = Some ''compra'', mv_created_by = ''u1''\<rparr>]\<rparr>) ''i1''
     = Some (2 + 1000000)"
proof -
  let ?m = "\<lparr>mf_type = IN, mf_quantity = 1000000, mf_notes = ''compra''\<rparr>"
  let ?d' = "shop\<lparr>inventory_items := [pomade\<lparr>inv_quantity := 1000002\<rparr>, shampoo],
              inventory_movements :=
                [\<lparr>mv_item_id = ''i1'', mv_type = IN, mv_quantity = 1000000,
                  mv_notes = Some ''compra'', mv_created_by = ''u1''\<rparr>]\<rparr>"
  have cur: "find (\<lambda>r. inv_id r = inv_id pomade) (inventory_items shop) = Some pomade"
    by (simp add: shop_def pomade_def)
  have q: "inv_quantity pomade = 2" "inv_id pomade = ''i1''"
    by (simp_all add: pomade_def)
  have st: "stock shop ''i1'' = Some (inv_quantity pomade)"
    by (simp add: shop_def stock_def pomade_def)
  have h: "mf_type ?m = IN" "0 < mf_quantity ?m" "two_decimals (mf_quantity ?m)"
    "two_decimals (inv_quantity pomade)"
    "0 \<le> inv_quantity pomade + mf_quantity ?m"
    "mf_quantity ?m < 100000000" "inv_quantity pomade + mf_quantity ?m < 100000000"
    by (simp_all add: q column_simps)
  have run: "handleMovement ''u1'' (Some pomade) ?m None None shop
               = (ToastSuccess msg_movimentacao_registrada, ?d')"
    by (simp add: handleMovement_def request_def insert_inventory_movement_def
          update_inventory_quantity_def column_simps shop_def pomade_def shampoo_def)
  from manual_in_movement [OF h(1,2,3) cur h(4,5,6,7), of "''u1''"] run
  have "stock ?d' ''i1'' = Some (2 + 1000000)"
    by (auto simp: q)
  with run st h show ?thesis
    by (simp add: q)
qed

text \<open>
  Five requests where C5, without these bounds, fails. On the item the sale of 5 left at
  \<open>- 3\<close>, an \<open>IN\<close> movement of 2 is refused for insufficient stock: the handler tests
  the new quantity, \<open>- 1\<close>, in both directions, and nothing is written. An \<open>IN\<close>
  movement of 99999999 on a quantity of 2: the movement row is written and the update is
  refused, since 100000001 does not fit the column; the quantity stays 2. A movement of
  half a cent: the request succeeds, the quantity is stored as \<open>2.01\<close> and the row holds
  \<open>0.01\<close>. A dialog opened on a row loaded before the sale that left the table at
  \<open>- 3\<close>: an \<open>IN\<close> of 1 puts the table at 3. A request whose update fails: the row is
  written and the quantity stays 2.
\<close>

theorem manual_in_movement_counterexample:
  "stock oversold ''i1'' = Some (- 3) \<and>
   handleMovement ''u1'' (Some (pomade\<lparr>inv_quantity := - 3\<rparr>))
       \<lparr>mf_type = IN, mf_quantity = 2, mf_notes = []\<rparr> None None oversold
     = (ToastError msg_quantidade_insuficiente, oversold) \<and>
   stock shop ''i1'' = Some 2 \<and>
   handleMovement ''u1'' (Some pomade)
       \<lparr>mf_type = IN, mf_quantity = 99999999, mf_notes = []\<rparr> None None shop
     = (ToastBackendError NumericValueOutOfRange,
        shop\<lparr>inventory_movements :=
                [\<lparr>mv_item_id = ''i1'', mv_type = IN, mv_quantity = 99999999,
                  mv_notes = Some [], mv_created_by = ''u1''\<rparr>]\<rparr>) \<and>
   stock (shop\<lparr>inventory_movements :=
                [\<lparr>mv_item_id = ''i1'', mv_type = IN, mv_quantity = 99999999,
                  mv_notes = Some [], mv_created_by = ''u1''\<rparr>]\<rparr>) ''i1'' = Some 2 \<and>
   handleMovement ''u1'' (Some pomade)
       \<lparr>mf_type = IN, mf_quantity = 1 / 200, mf_notes = []\<rparr> None None shop
     = (ToastSuccess msg_movimentacao_registrada,
        shop\<lparr>inventory_items := [pomade\<lparr>inv_quantity := 201 / 100\<rparr>, shampoo],
              inventory_movements :=
                [\<lparr>mv_item_id = ''i1'', mv_type = IN, mv_quantity = 1 / 100,
                  mv_notes = Some [], mv_created_by = ''u1''\<rparr>]\<rparr>) \<and>
   (201 / 100 :: rat) \<noteq> 2 + 1 / 200 \<and>
   handleMovement ''u1'' (Some pomade)
       \<lparr>mf_type = IN, mf_quantity = 1, mf_notes = []\<rparr> None None oversold
     = (ToastSuccess msg_movimentacao_registrada,
        oversold\<lparr>inventory_items := [pomade\<lparr>inv_quantity := 3\<rparr>, shampoo],
                  inventory_movements := inventory_movements oversold @
                    [\<lparr>mv_item_id = ''i1'', mv_type = IN, mv_quantity = 1,
                      mv_notes = Some [], mv_created_by = ''u1''\<rparr>]\<rparr>) \<and>
   handleMovement ''u1'' (Some pomade)
       \<lparr>mf_type = IN, mf_quantity = 1, mf_notes = []\<rparr>
       None (Some (RequestFailed ''offline'')) shop
     = (ToastBackendError (RequestFailed ''offline''),
        shop\<lparr>inventory_movements :=
                [\<lparr>mv_item_id = ''i1'', mv_type = IN, mv_quantity = 1,
                  mv_notes = Some [], mv_created_by = ''u1''\<rparr>]\<rparr>)"
  by (simp add: handleMovement_def request_def insert_inventory_movement_def
        update_inventory_quantity_def column_simps round_2_half_cent
        oversold_def shop_def pomade_def shampoo_def stock_def)




section \<open>The movement rows account for the quantity\<close>

lemma movement_balance_append:
  "movement_balance (d\<lparr>inventory_movements := inventory_movements d @ [m],
                        inventory_items := xs\<rparr>) iid
     = movement_balance d iid + (if mv_item_id m = iid then signed_quantity m else 0)"
  by (simp add: movement_balance_def)

lemma manual_movement_step:
  assumes run: "handleMovement user (Some item) movement movementFailure updateFailure d
                  = (ToastSuccess msg, d')"
    and cur: "find (\<lambda>r. inv_id r = inv_id item) (inventory_items d) = Some item"
    and cents: "two_decimals (mf_quantity movement)"
    and start: "stock d iid = Some S"
    and col: "two_decimals S"
  shows "\<exists>S'. stock d' iid = Some S' \<and> two_decimals S' \<and>
              movement_balance d' iid - movement_balance d iid = S' - S"
proof -
  let ?new = "if mf_type movement = IN
              then inv_quantity item + mf_quantity movement
              else inv_quantity item - mf_quantity movement"
  note ok = handleMovement_success [OF run]
  from cents have row: "round_2 (mf_quantity movement) = mf_quantity movement"
    by (simp add: two_decimals_def)
  show ?thesis
  proof (cases "iid = inv_id item")
    case False
    have "stock d' iid = stock d iid"
      unfolding ok(3) using False by (simp add: stock_def find_quantity_map)
    moreover have "movement_balance d' iid = movement_balance d iid"
      unfolding ok(3) movement_balance_append using False by simp
    ultimately show ?thesis using start col by simp
  next
    case True
    with cur start have S: "inv_quantity item = S"
      by (simp add: stock_def)
    from col cents S have "two_decimals ?new"
      by (auto intro: two_decimals_add two_decimals_diff)
    then have new: "round_2 ?new = ?new"
      by (simp add: two_decimals_def)
    have st: "stock d' iid = Some ?new"
      unfolding ok(3) using True cur new by (simp add: stock_def find_quantity_map)
    have bal: "movement_balance d' iid = movement_balance d iid + (?new - S)"
      unfolding ok(3) movement_balance_append
      by (cases "mf_type movement") (simp_all add: True S row signed_quantity_def)
    from st bal new show ?thesis
      by (intro exI [of _ ?new]) (simp add: two_decimals_def)
  qed
qed

lemma manual_movements_balance:
  assumes "manual_movements user reqs d = Some d'"
    and "on_current_rows user reqs d"
    and "list_all (\<lambda>rq. two_decimals (mf_quantity (rq_movement rq))) reqs"
    and "stock d iid = Some S"
    and "two_decimals S"
  shows "\<exists>S'. stock d' iid = Some S' \<and>
              movement_balance d' iid - movement_balance d iid = S' - S"
  using assms
proof (induction reqs arbitrary: d S)
  case Nil
  then show ?case by simp
next
  case (Cons rq rest)
  from Cons.prems(1) obtain msg d1
    where step: "handleMovement user (Some (rq_selectedItem rq)) (rq_movement rq)
                   (rq_movementFailure rq) (rq_updateFailure rq) d = (ToastSuccess msg, d1)"
      and rest: "manual_movements user rest d1 = Some d'"
    by (auto split: prod.splits toast.splits)
  from Cons.prems(2) step
  have cur: "find (\<lambda>r. inv_id r = inv_id (rq_selectedItem rq)) (inventory_items d)
               = Some (rq_selectedItem rq)"
    and cur_rest: "on_current_rows user rest d1"
    by simp_all
  from Cons.prems(3) have cents: "two_decimals (mf_quantity (rq_movement rq))"
    and cents_rest: "list_all (\<lambda>rq. two_decimals (mf_quantity (rq_movement rq))) rest"
    by simp_all
  from manual_movement_step [OF step cur cents Cons.prems(4,5)]
  obtain S1 where S1: "stock d1 iid = Some S1" "two_decimals S1"
    "movement_balance d1 iid - movement_balance d iid = S1 - S"
    by blast
  from Cons.IH [OF rest cur_rest cents_rest S1(1,2)] S1(3) show ?case
    by auto
qed

text \<open>
  C7, as the handler and the columns have it. Take a run of manual movements that all
  succeeded, with quantities of at most two decimals, each made on the row as the table
  had it at that moment, and an item whose quantity at the start has two decimals. The
  signed quantities of the movement rows written for the item (\<open>IN\<close> positive, \<open>OUT\<close>
  negative) add up to its quantity now minus its quantity at the start. When the item
  had no movement row at the start, that is the signed sum of all its rows.
\<close>

theorem movement_rows_account_for_quantity:
  assumes run: "manual_movements user reqs d = Some d'"
    and current: "on_current_rows user reqs d"
    and cents: "list_all (\<lambda>rq. two_decimals (mf_quantity (rq_movement rq))) reqs"
    and start: "stock d iid = Some S"
    and col: "two_decimals S"
  shows "\<exists>S'. stock d' iid = Some S' \<and>
              movement_balance d' iid - movement_balance d iid = S' - S \<and>
              (filter (\<lambda>m. mv_item_id m = iid) (inventory_movements d) = [] \<longrightarrow>
                 movement_balance d' iid = S' - S)"
proof -
  from manual_movements_balance [OF run current cents start col]
  obtain S' where S': "stock d' iid = Some S'"
    "movement_balance d' iid - movement_balance d iid = S' - S"
    by blast
  have "movement_balance d iid = 0"
    if "filter (\<lambda>m. mv_item_id m = iid) (inventory_movements d) = []"
    using that by (simp add: movement_balance_def)
  with S' show ?thesis by auto
qed


theorem movement_rows_account_for_quantity_witness:
  "manual_movements ''u1''
     [\<lparr>rq_selectedItem = pomade,
       rq_movement = \<lparr>mf_type = IN, mf_quantity = 3, mf_notes = []\<rparr>,
       rq_movementFailure = None, rq_updateFailure = None\<rparr>,
      \<lparr>rq_selectedItem = pomade\<lparr>inv_quantity := 5\<rparr>,
       rq_movement = \<lparr>mf_type = OUT, mf_quantity = 4, mf_notes = []\<rparr>,
       rq_movementFailure = None, rq_updateFailure = None\<rparr>] shop
     = Some (shop\<lparr>inventory_items := [pomade\<lparr>inv_quantity := 1\<rparr>, shampoo],
                  inventory_movements :=
                    [\<lparr>mv_item_id = ''i1'', mv_type = IN, mv_quantity = 3,
                      mv_notes = Some [], mv_created_by = ''u1''\<rparr>,
                     \<lparr>mv_item_id = ''i1'', mv_type = OUT, mv_quantity = 4,
                      mv_notes = Some [], mv_created_by = ''u1''\<rparr>]\<rparr>) \<and>
   on_current_rows ''u1''
     [\<lparr>rq_selectedItem = pomade,
       rq_movement = \<lparr>mf_type = IN, mf_quantity = 3, mf_notes = []\<rparr>,
       rq_movementFailure = None, rq_updateFailure = None\<rparr>,
      \<lparr>rq_selectedItem = pomade\<lparr>inv_quantity := 5\<rparr>,
       rq_movement = \<lparr>mf_type = OUT, mf_quantity = 4, mf_notes = []\<rparr>,
       rq_movementFailure = None, rq_updateFailure = None\<rparr>] shop \<and>
   two_decimals 3 \<and> two_decimals 4 \<and> two_decimals 2 \<and>
   stock shop ''i1'' = Some 2 \<and>
   inventory_movements shop = [] \<and>
   stock (shop\<lparr>inventory_items := [pomade\<lparr>inv_quantity := 1\<rparr>, shampoo],
                  inventory_movements :=
                    [\<lparr>mv_item_id = ''i1'', mv_type = IN, mv_quantity = 3,
                      mv_notes = Some [], mv_created_by = ''u1''\<rparr>,
                     \<lparr>mv_item_id = ''i1'', mv_type = OUT, mv_quantity = 4,
                      mv_notes = Some [], mv_created_by = ''u1''\<rparr>]\<rparr>) ''i1'' = Some 1 \<and>
   movement_balance (shop\<lparr>inventory_items := [pomade\<lparr>inv_quantity := 1\<rparr>, shampoo],
                  inventory_movements :=
                    [\<lparr>mv_item_id = ''i1'', mv_type = IN, mv_quantity = 3,
                      mv_notes = Some [], mv_created_by = ''u1''\<rparr>,
                     \<lparr>mv_item_id = ''i1'', mv_type = OUT, mv_quantity = 4,
                      mv_notes = Some [], mv_created_by = ''u1''\<rparr>]\<rparr>) ''i1'' = 1 - 2"
proof -
  let ?reqs = "[\<lparr>rq_selectedItem = pomade,
       rq_movement = \<lparr>mf_type = IN, mf_quantity = 3, mf_notes = []\<rparr>,
       rq_movementFailure = None, rq_updateFailure = None\<rparr>,
      \<lparr>rq_selectedItem = pomade\<lparr>inv_quantity := 5\<rparr>,
       rq_movement = \<lparr>mf_type = OUT, mf_quantity = 4, mf_notes = []\<rparr>,
       rq_movementFailure = None, rq_updateFailure = None\<rparr>]"
  let ?d' = "shop\<lparr>inventory_items := [pomade\<lparr>inv_quantity := 1\<rparr>, shampoo],
                  inventory_movements :=
                    [\<lparr>mv_item_id = ''i1'', mv_type = IN, mv_quantity = 3,
                      mv_notes = Some [], mv_created_by = ''u1''\<rparr>,
                     \<lparr>mv_item_id = ''i1'', mv_type = OUT, mv_quantity = 4,
                      mv_notes = Some [], mv_created_by = ''u1''\<rparr>]\<rparr>"
  have run: "manual_movements ''u1'' ?reqs shop = Some ?d'"
    by (simp add: handleMovement_def request_def insert_inventory_movement_def
          update_inventory_quantity_def column_simps shop_def pomade_def shampoo_def)
  have current: "on_current_rows ''u1'' ?reqs shop"
    by (simp add: handleMovement_def request_def insert_inventory_movement_def
          update_inventory_quantity_def column_simps shop_def pomade_def shampoo_def)
  have cents: "list_all (\<lambda>rq. two_decimals (mf_quantity (rq_movement rq))) ?reqs"
    by (simp add: column_simps)
  have start: "stock shop ''i1'' = Some 2"
    by (simp add: stock_def shop_def pomade_def)
  have col: "two_decimals 2" "two_decimals 3" "two_decimals 4"
    by (simp_all add: column_simps)
  have none: "filter (\<lambda>m. mv_item_id m = ''i1'') (inventory_movements shop) = []"
    "inventory_movements shop = []"
    by (simp_all add: shop_def)
  have now: "stock ?d' ''i1'' = Some 1"
    by (simp add: stock_def shop_def pomade_def)
  from movement_rows_account_for_quantity [OF run current cents start col(1)] none now
  have "movement_balance ?d' ''i1'' = 1 - 2"
    by auto
  with run current start col none now show ?thesis by simp
qed

text \<open>
  Two runs where C7, without these bounds, fails. One movement of half a cent, on the
  current row: it succeeds, its row holds \<open>- 0.01\<close> signed, and the quantity is 2 before
  and after. Two movements from the same loaded row, the list not reloaded in between:
  \<open>IN\<close> 3 puts the table at 5, \<open>OUT\<close> 1 is computed from the loaded 2 and puts it at 1;
  both succeed, the rows add up to \<open>+ 2\<close>, and the quantity went from 2 to 1.
\<close>

theorem movement_rows_account_for_quantity_counterexample:
  "stock shop ''i1'' = Some 2 \<and> inventory_movements shop = [] \<and>
   on_current_rows ''u1''
     [\<lparr>rq_selectedItem = pomade,
       rq_movement = \<lparr>mf_type = OUT, mf_quantity = 1 / 200, mf_notes = []\<rparr>,
       rq_movementFailure = None, rq_updateFailure = None\<rparr>] shop \<and>
   manual_movements ''u1''
     [\<lparr>rq_selectedItem = pomade,
       rq_movement = \<lparr>mf_type = OUT, mf_quantity = 1 / 200, mf_notes = []\<rparr>,
       rq_movementFailure = None, rq_updateFailure = None\<rparr>] shop
     = Some (shop\<lparr>inventory_movements :=
                    [\<lparr>mv_item_id = ''i1'', mv_type = OUT, mv_quantity = 1 / 100,
                      mv_notes = Some [], mv_created_by = ''u1''\<rparr>]\<rparr>) \<and>
   stock (shop\<lparr>inventory_movements :=
                    [\<lparr>mv_item_id = ''i1'', mv_type = OUT, mv_quantity = 1 / 100,
                      mv_notes = Some [], mv_created_by = ''u1''\<rparr>]\<rparr>) ''i1'' = Some 2 \<and>
   movement_balance (shop\<lparr>inventory_movements :=
                    [\<lparr>mv_item_id = ''i1'', mv_type = OUT, mv_quantity = 1 / 100,
                      mv_notes = Some [], mv_created_by = ''u1''\<rparr>]\<rparr>) ''i1'' = - (1 / 100) \<and>
   (- (1 / 100) :: rat) \<noteq> 2 - 2 \<and>
   manual_movements ''u1''
     [\<lparr>rq_selectedItem = pomade,
       rq_movement = \<lparr>mf_type = IN, mf_quantity = 3, mf_notes = []\<rparr>,
       rq_movementFailure = None, rq_updateFailure = None\<rparr>,
      \<lparr>rq_selectedItem = pomade,
       rq_movement = \<lparr>mf_type = OUT, mf_quantity = 1, mf_notes = []\<rparr>,
       rq_movementFailure = None, rq_updateFailure = None\<rparr>] shop
     = Some (shop\<lparr>inventory_items := [pomade\<lparr>inv_quantity := 1\<rparr>, shampoo],
                  inventory_movements :=
                    [\<lparr>mv_item_id = ''i1'', mv_type = IN, mv_quantity = 3,
                      mv_notes = Some [], mv_created_by = ''u1''\<rparr>,
                     \<lparr>mv_item_id = ''i1'', mv_type = OUT, mv_quantity = 1,
                      mv_notes = Some [], mv_created_by = ''u1''\<rparr>]\<rparr>) \<and>
   stock (shop\<lparr>inventory_items := [pomade\<lparr>inv_quantity := 1\<rparr>, shampoo],
                  inventory_movements :=
                    [\<lparr>mv_item_id = ''i1'', mv_type = IN, mv_quantity = 3,
                      mv_notes = Some [], mv_created_by = ''u1''\<rparr>,
                     \<lparr>mv_item_id = ''i1'', mv_type = OUT, mv_quantity = 1,
                      mv_notes = Some [], mv_created_by = ''u1''\<rparr>]\<rparr>) ''i1'' = Some 1 \<and>
   movement_balance (shop\<lparr>inventory_items := [pomade\<lparr>inv_quantity := 1\<rparr>, shampoo],
                  inventory_movements :=
                    [\<lparr>mv_item_id = ''i1'', mv_type = IN, mv_quantity = 3,
                      mv_notes = Some [], mv_created_by = ''u1''\<rparr>,
                     \<lparr>mv_item_id = ''i1'', mv_type = OUT, mv_quantity = 1,
                      mv_notes = Some [], mv_created_by = ''u1''\<rparr>]\<rparr>) ''i1'' = 2 \<and>
   (2 :: rat) \<noteq> 1 - 2"
  by (simp add: handleMovement_def request_def insert_inventory_movement_def
        update_inventory_quantity_def column_simps round_2_half_cent
        movement_balance_def signed_quantity_def
        shop_def pomade_def shampoo_def stock_def)

section \<open>Low stock\<close>

lemma lowStockItems_iff:
  "item \<in> set (lowStockItems items) \<longleftrightarrow>
     item \<in> set items \<and>
     (\<exists>m. inv_min_quantity item = Some m \<and> m \<noteq> 0 \<and> inv_quantity item \<le> m)"
  by (auto simp: lowStockItems_def truthy_def split: option.splits)

text \<open>
  C9. The specification: an item is low on stock exactly when its quantity is at most its minimum
  quantity. The inventory screen does not report an item whose minimum is 0, although
  its quantity 0 is at most that minimum; the dashboard, on the same rows, does.
\<close>

theorem low_stock_zero_minimum:
  "inv_min_quantity shampoo = Some 0 \<and>
   inv_quantity shampoo \<le> the (inv_min_quantity shampoo) \<and>
   lowStockItems [pomade, shampoo] = [] \<and>
   loadLowStockItems [pomade, shampoo] = [shampoo]"
  by (simp add: lowStockItems_def loadLowStockItems_def truthy_def Number_def
        pomade_def shampoo_def)

section \<open>The stored total\<close>

lemma foldl_plus_sum_list:
  "foldl (\<lambda>sum x. sum + f x) a xs = a + sum_list (map f xs)"
  for a :: rat
  by (induction xs arbitrary: a) (simp_all add: add.assoc)

lemma calculateTotal_sum_list:
  "calculateTotal items = (\<Sum>item\<leftarrow>items. li_price item * of_int (li_quantity item))"
  by (simp add: calculateTotal_def foldl_plus_sum_list)

lemma after_insert_row_transactions:
  "after_insert_row d new = Inr d' \<Longrightarrow> transactions d' = transactions d"
  by (auto simp: after_insert_row_def split: if_splits
           dest!: update_inventory_on_product_sale_Inr)

lemma after_insert_rows_transactions:
  "after_insert_rows d rows = Inr d' \<Longrightarrow> transactions d' = transactions d"
proof (induction rows arbitrary: d)
  case Nil
  then show ?case by simp
next
  case (Cons new rest)
  then obtain d1 where step: "after_insert_row d new = Inr d1"
    and rest: "after_insert_rows d1 rest = Inr d'"
    by (auto split: sum.splits)
  from Cons.IH [OF rest] after_insert_row_transactions [OF step]
  show ?case by simp
qed

lemma insert_transaction_items_transactions:
  "insert_transaction_items d rows = Inr d' \<Longrightarrow> transactions d' = transactions d"
  by (auto simp: insert_transaction_items_def split: if_splits
           dest: after_insert_rows_transactions)

lemma handleSubmit_header:
  assumes run: "handleSubmit user selectedBarberId selectedPaymentMethodId items notes new_id
             transactionFailure itemsFailure d = (t, d')"
    and changed: "transactions d' \<noteq> transactions d"
  shows "transactions d' = transactions d @
           [\<lparr>tx_id = new_id, tx_barber_id = selectedBarberId, tx_total = calculateTotal items,
             tx_payment_method_id = selectedPaymentMethodId, tx_notes = Some notes,
             tx_created_by = user\<rparr>]"
    and "\<not> list_ex (\<lambda>t. tx_id t = new_id) (transactions d)"
  using assms
  by (auto simp: handleSubmit_def request_def insert_transaction_def Let_def
        split: if_splits option.splits sum.splits
        dest!: insert_transaction_items_transactions)

lemma handleSubmit_success:
  assumes run: "handleSubmit user selectedBarberId selectedPaymentMethodId items notes new_id
             transactionFailure itemsFailure d = (ToastSuccess msg, d')"
  shows "transactions d' \<noteq> transactions d"
    and "transaction_items d' = transaction_items d @ itemsToInsert new_id items"
proof -
  let ?row = "\<lparr>tx_id = new_id, tx_barber_id = selectedBarberId, tx_total = calculateTotal items,
             tx_payment_method_id = selectedPaymentMethodId, tx_notes = Some notes,
             tx_created_by = user\<rparr>"
  let ?d1 = "d\<lparr>transactions := transactions d @ [?row]\<rparr>"
  from run have ins: "insert_transaction_items ?d1 (itemsToInsert new_id items) = Inr d'"
    by (auto simp: handleSubmit_def request_def insert_transaction_def Let_def itemsToInsert_def
        split: if_splits option.splits sum.splits)
  from insert_transaction_items_transactions [OF ins]
  show "transactions d' \<noteq> transactions d" by simp
  from insert_transaction_items_stored(1) [OF ins]
  show "transaction_items d' = transaction_items d @ itemsToInsert new_id items" by simp
qed

lemma itemsToInsert_total:
  "(\<Sum>x\<leftarrow>filter (\<lambda>x. ti_transaction_id x = new_id) (itemsToInsert new_id items).
      ti_price x * of_int (ti_quantity x)) = calculateTotal items"
  by (induction items) (simp_all add: itemsToInsert_def calculateTotal_sum_list)

text \<open>
  C10. A header row that the new-transaction screen stores carries as its total the sum
  of price times quantity over the lines of the form, and the commissions of the lines
  do not enter it. When the submission succeeds and every stored line belonged to a
  stored header before, that total is also the sum of price times quantity over the
  stored lines of the new transaction.
\<close>

theorem stored_total_is_sum_of_lines:
  assumes run: "handleSubmit user selectedBarberId selectedPaymentMethodId items notes new_id
             transactionFailure itemsFailure d = (t, d')"
    and stored: "transactions d' \<noteq> transactions d"
  shows "\<exists>header. transactions d' = transactions d @ [header] \<and>
           tx_id header = new_id \<and>
           tx_total header = (\<Sum>item\<leftarrow>items. li_price item * of_int (li_quantity item)) \<and>
           tx_total header =
             calculateTotal (map (\<lambda>item. item\<lparr>li_commission := c item\<rparr>) items) \<and>
           (t = ToastSuccess msg_transacao_registrada \<longrightarrow>
            (\<forall>x \<in> set (transaction_items d).
               list_ex (\<lambda>h. tx_id h = ti_transaction_id x) (transactions d)) \<longrightarrow>
              tx_total header =
                (\<Sum>x\<leftarrow>filter (\<lambda>x. ti_transaction_id x = new_id) (transaction_items d').
                   ti_price x * of_int (ti_quantity x)))"
proof -
  let ?header = "\<lparr>tx_id = new_id, tx_barber_id = selectedBarberId,
             tx_total = calculateTotal items,
             tx_payment_method_id = selectedPaymentMethodId, tx_notes = Some notes,
             tx_created_by = user\<rparr>"
  note hd = handleSubmit_header [OF run stored]
  have comm: "calculateTotal (map (\<lambda>item. item\<lparr>li_commission := c item\<rparr>) items)
                = calculateTotal items"
    by (simp add: calculateTotal_sum_list comp_def)
  have lines: "tx_total ?header =
                (\<Sum>x\<leftarrow>filter (\<lambda>x. ti_transaction_id x = new_id) (transaction_items d').
                   ti_price x * of_int (ti_quantity x))"
    if ok: "t = ToastSuccess msg_transacao_registrada"
      and refs: "\<forall>x \<in> set (transaction_items d).
               list_ex (\<lambda>h. tx_id h = ti_transaction_id x) (transactions d)"
  proof -
    from hd(2) refs
    have "filter (\<lambda>x. ti_transaction_id x = new_id) (transaction_items d) = []"
      by (auto simp: filter_empty_conv list_ex_iff)
    with handleSubmit_success(2) [OF run [unfolded ok]]
    show ?thesis by (simp add: itemsToInsert_total)
  qed
  from hd(1) comm lines show ?thesis
    by (intro exI [of _ ?header]) (simp add: calculateTotal_sum_list)
qed


theorem stored_total_is_sum_of_lines_witness:
  "handleSubmit ''u2'' ''b1'' ''p1'' form_lines ''nota'' ''t2'' None None oversold
     = (ToastSuccess msg_transacao_registrada, sold) \<and>
   transactions sold \<noteq> transactions oversold \<and>
   list_all (\<lambda>x. list_ex (\<lambda>h. tx_id h = ti_transaction_id x) (transactions oversold))
     (transaction_items oversold) \<and>
   tx_total (last (transactions sold)) = 40 * 1 + 15 * 2 \<and>
   (\<Sum>x\<leftarrow>filter (\<lambda>x. ti_transaction_id x = ''t2'') (transaction_items sold).
      ti_price x * of_int (ti_quantity x)) = 70 \<and>
   calculateTotal (map (\<lambda>item. item\<lparr>li_commission := 99\<rparr>) form_lines) = 70"
proof -
  have run: "handleSubmit ''u2'' ''b1'' ''p1'' form_lines ''nota'' ''t2'' None None oversold
     = (ToastSuccess msg_transacao_registrada, sold)"
    by (simp add: handleSubmit_def request_def insert_transaction_def calculateTotal_def
          itemsToInsert_def insert_transaction_items_def check_item_type_def
          after_insert_row_def foreign_keys_ok_def update_inventory_on_product_sale_def column_simps Let_def
          transaction_creator_def sold_def oversold_def shop_def form_lines_def
          pomade_def shampoo_def)
  have stored: "transactions sold \<noteq> transactions oversold"
    by (simp add: sold_def)
  have refs: "\<forall>x \<in> set (transaction_items oversold).
               list_ex (\<lambda>h. tx_id h = ti_transaction_id x) (transactions oversold)"
    by (simp add: oversold_def shop_def product_line_def)
  have last: "tx_total (last (transactions sold)) = 70"
    by (simp add: sold_def)
  from stored_total_is_sum_of_lines [OF run stored, of "\<lambda>item. 99"]
  obtain header where h: "transactions sold = transactions oversold @ [header]"
    "tx_total header = (\<Sum>item\<leftarrow>form_lines. li_price item * of_int (li_quantity item))"
    "tx_total header = calculateTotal (map (\<lambda>item. item\<lparr>li_commission := 99\<rparr>) form_lines)"
    "(\<forall>x \<in> set (transaction_items oversold).
               list_ex (\<lambda>h. tx_id h = ti_transaction_id x) (transactions oversold)) \<longrightarrow>
              tx_total header =
                (\<Sum>x\<leftarrow>filter (\<lambda>x. ti_transaction_id x = ''t2'') (transaction_items sold).
                   ti_price x * of_int (ti_quantity x))"
    by blast
  from h(1) last have "tx_total header = 70" by simp
  with h(3) h(4) refs run stored last show ?thesis
    by (simp add: list_all_iff)
qed

end
